theory Spec2Isabelle
  imports Main "HOL-Library.AList"
begin

section \<open>DeployPodToKube.svelte: the data the component handles\<close>

text \<open>
  The component keeps a parsed Pod manifest (\<open>bodyPod\<close>), derives Service, Route and
  Ingress objects from it and sends them to the cluster through the host bridge
  (\<open>window.*\<close>). An optional property of a JavaScript object is an \<open>option\<close> field:
  \<open>None\<close> is \<open>undefined\<close> (or \<open>null\<close>, which \<open>?.\<close>, \<open>??\<close> and the truth tests of
  the source treat alike). Port numbers are the integers the YAML document holds.
\<close>

text \<open>
  \<open>metadata.labels\<close> is an object with string values: its entries in insertion order,
  no key twice. \<open>map_of\<close> reads a key; \<open>AList.update\<close> assigns one the way a property
  assignment does (in place when the key exists, at the end otherwise).
\<close>

type_synonym labelMap = "(string \<times> string) list"

datatype timestamp = TimeText string | TimeDate string

record V1ObjectMeta =
  name :: "string option"
  namespace :: "string option"
  labels :: "labelMap option"
  creationTimestamp :: "timestamp option"

record V1ContainerPort =
  hostPort :: "int option"
  containerPort :: "int option"
  protocol :: "string option"

record V1Container =
  containerName :: "string option"
  ports :: "V1ContainerPort list option"
  volumeMounts :: "string list option"
  imagePullPolicy :: "string option"

record V1PodSpec =
  containers :: "V1Container list option"
  volumes :: "string list option"

record V1PodStatus =
  phase :: "string option"

record V1Pod =
  metadata :: "V1ObjectMeta option"
  spec :: "V1PodSpec option"
  status :: "V1PodStatus option"

text \<open>
  The objects \<open>deployToKube\<close> builds. The nesting of the object literals is flattened
  into field names: \<open>spec.ports[0]\<close> of a Service is the one entry of \<open>servicePorts\<close>,
  \<open>spec.selector.app\<close> is \<open>selectorApp\<close>, and so on.
\<close>

record V1ServicePort =
  servicePortName :: string
  port :: "int option"
  servicePortProtocol :: string
  targetPort :: "int option"

record V1Service =
  serviceApiVersion :: string
  serviceKind :: string
  serviceMetadata :: V1ObjectMeta
  servicePorts :: "V1ServicePort list"
  selectorApp :: "string option"

record V1Route =
  routeApiVersion :: string
  routeKind :: string
  routeMetadata :: V1ObjectMeta
  routeTargetPort :: "int option"
  routeToKind :: string
  routeToName :: string
  routeTlsTermination :: string
  routeHost :: "string option"

record V1Ingress =
  ingressApiVersion :: string
  ingressKind :: string
  ingressMetadata :: V1ObjectMeta
  backendServiceName :: "string option"
  backendServicePort :: "int option"

subsection \<open>JavaScript truth tests and template literals\<close>

text \<open>\<open>if (port.hostPort)\<close>, \<open>!ingressPort\<close>: a number is true unless it is absent or 0.\<close>

fun truthyNumber :: "int option \<Rightarrow> bool" where
  "truthyNumber None = False"
| "truthyNumber (Some n) = (n \<noteq> 0)"

text \<open>\<open>if (bodyPod.metadata?.name)\<close>: a string is true unless it is absent or empty.\<close>

fun truthyString :: "string option \<Rightarrow> bool" where
  "truthyString None = False"
| "truthyString (Some s) = (s \<noteq> [])"

definition digitChar :: "nat \<Rightarrow> char" where
  "digitChar d = ''0123456789'' ! (d mod 10)"

function natToString :: "nat \<Rightarrow> string" where
  "natToString n =
     (if n < 10 then [digitChar n] else natToString (n div 10) @ [digitChar (n mod 10)])"
  by pat_completeness auto
termination
  by (relation "measure (\<lambda>n. n)") auto

declare natToString.simps [simp del]

text \<open>\<open>`${n}`\<close> for an integer \<open>n\<close>: its decimal digits, with a sign when negative.\<close>

definition numberToString :: "int \<Rightarrow> string" where
  "numberToString i =
     (if i < 0 then CHR ''-'' # natToString (nat (- i)) else natToString (nat i))"

text \<open>\<open>`${x}`\<close> for an optional value: \<open>undefined\<close> prints as the word itself.\<close>

definition templateString :: "string option \<Rightarrow> string" where
  "templateString v = (case v of None \<Rightarrow> ''undefined'' | Some s \<Rightarrow> s)"

definition templateNumber :: "int option \<Rightarrow> string" where
  "templateNumber v = (case v of None \<Rightarrow> ''undefined'' | Some i \<Rightarrow> numberToString i)"

subsection \<open>Optional chaining over the manifest\<close>

text \<open>\<open>bodyPod.metadata?.name\<close>\<close>

definition podName :: "V1Pod \<Rightarrow> string option" where
  "podName pod = (case metadata pod of None \<Rightarrow> None | Some m \<Rightarrow> name m)"

text \<open>The containers \<open>bodyPod.spec?.containers?.forEach\<close> visits.\<close>

definition podContainers :: "V1Pod \<Rightarrow> V1Container list" where
  "podContainers pod =
     (case spec pod of None \<Rightarrow> []
      | Some sp \<Rightarrow> (case containers sp of None \<Rightarrow> [] | Some cs \<Rightarrow> cs))"

text \<open>The ports \<open>container?.ports?.forEach\<close> visits.\<close>

definition containerPorts :: "V1Container \<Rightarrow> V1ContainerPort list" where
  "containerPorts c = (case ports c of None \<Rightarrow> [] | Some ps \<Rightarrow> ps)"

text \<open>\<open>bodyPod?.spec?.volumes\<close>\<close>

definition podVolumes :: "V1Pod \<Rightarrow> string list option" where
  "podVolumes pod = (case spec pod of None \<Rightarrow> None | Some sp \<Rightarrow> volumes sp)"

section \<open>Planning the services and routes (deployToKube, lines 178-237)\<close>

text \<open>The object literal \<open>service\<close> of line 187.\<close>

definition makeService :: "string option \<Rightarrow> string option \<Rightarrow> V1ContainerPort \<Rightarrow> V1Service" where
  "makeService podNm ns p =
     (let portName = templateString podNm @ ''-'' @ templateNumber (hostPort p) in
      \<lparr> serviceApiVersion = ''v1'',
        serviceKind = ''Service'',
        serviceMetadata =
          \<lparr> name = Some portName, namespace = ns, labels = None, creationTimestamp = None \<rparr>,
        servicePorts =
          [\<lparr> servicePortName = portName,
             port = hostPort p,
             servicePortProtocol = (case protocol p of None \<Rightarrow> ''TCP'' | Some pr \<Rightarrow> pr),
             targetPort = containerPort p \<rparr>],
        selectorApp = podNm \<rparr>)"

text \<open>The object literal \<open>route\<close> of line 212.\<close>

definition makeRoute :: "string option \<Rightarrow> string option \<Rightarrow> V1ContainerPort \<Rightarrow> V1Route" where
  "makeRoute podNm ns p =
     (let routeName = templateString podNm @ ''-'' @ templateNumber (hostPort p) in
      \<lparr> routeApiVersion = ''route.openshift.io/v1'',
        routeKind = ''Route'',
        routeMetadata =
          \<lparr> name = Some routeName, namespace = ns, labels = None, creationTimestamp = None \<rparr>,
        routeTargetPort = containerPort p,
        routeToKind = ''Service'',
        routeToName = routeName,
        routeTlsTermination = ''edge'',
        routeHost = None \<rparr>)"

text \<open>
  The body of the inner \<open>forEach\<close> (lines 183-235): one port, pushing onto
  \<open>servicesToCreate\<close> and \<open>routesToCreate\<close>.
\<close>

definition planPort ::
  "bool \<Rightarrow> string option \<Rightarrow> string option \<Rightarrow> V1ContainerPort \<Rightarrow>
   V1Service list \<times> V1Route list \<Rightarrow> V1Service list \<times> V1Route list" where
  "planPort withRoutes podNm ns p acc =
     (if truthyNumber (hostPort p)
      then (fst acc @ [makeService podNm ns p],
            if withRoutes then snd acc @ [makeRoute podNm ns p] else snd acc)
      else acc)"

text \<open>The outer \<open>forEach\<close> (lines 181-236): one container.\<close>

definition planContainer ::
  "bool \<Rightarrow> string option \<Rightarrow> string option \<Rightarrow> V1Container \<Rightarrow>
   V1Service list \<times> V1Route list \<Rightarrow> V1Service list \<times> V1Route list" where
  "planContainer withRoutes podNm ns c acc =
     fold (planPort withRoutes podNm ns) (containerPorts c) acc"

text \<open>
  Lines 178-237: \<open>if (deployUsingServices) { ... }\<close>, starting from the two empty
  arrays. \<open>withRoutes\<close> is \<open>openshiftRouteGroupSupported && deployUsingRoutes\<close>.
\<close>

definition planServices ::
  "bool \<Rightarrow> bool \<Rightarrow> string option \<Rightarrow> V1Pod \<Rightarrow> V1Service list \<times> V1Route list" where
  "planServices usingServices withRoutes ns pod =
     (if usingServices
      then fold (planContainer withRoutes (podName pod) ns) (podContainers pod) ([], [])
      else ([], []))"

section \<open>Planning the ingress (deployToKube, lines 240-293)\<close>

text \<open>
  The block either leaves \<open>deployToKube\<close> with a warning or an error text, or pushes
  one object onto \<open>ingressesToCreate\<close>. With \<open>createIngress\<close> false the array stays
  empty.
\<close>

datatype ingressPlan =
  IngressWarning string
| IngressError string
| IngressPlanned "V1Ingress list"

text \<open>\<open>service.metadata.name\<close> and \<open>service.spec.ports[0].port\<close>\<close>

definition serviceName :: "V1Service \<Rightarrow> string option" where
  "serviceName svc = name (serviceMetadata svc)"

text \<open>
  Every service of \<open>planServices\<close> has exactly one port entry (lemma
  \<open>planned_service_shape\<close> below), so the empty case is never read.
\<close>

definition servicePort :: "V1Service \<Rightarrow> int option" where
  "servicePort svc = (case servicePorts svc of [] \<Rightarrow> None | sp # _ \<Rightarrow> port sp)"

definition makeIngress ::
  "string option \<Rightarrow> string option \<Rightarrow> string option \<Rightarrow> int option \<Rightarrow> V1Ingress" where
  "makeIngress podNm ns svcName svcPort =
     \<lparr> ingressApiVersion = ''networking.k8s.io/v1'',
       ingressKind = ''Ingress'',
       ingressMetadata =
         \<lparr> name = podNm, namespace = ns, labels = None, creationTimestamp = None \<rparr>,
       backendServiceName = svcName,
       backendServicePort = svcPort \<rparr>"

definition noServiceWarning :: string where
  "noServiceWarning =
     ''In order to create an Ingress a Pod must have a Service associated to a port mapping. '' @
     ''Check that your container(s) has a port exposed correctly in order to generate a Service.''"

definition noPortWarning :: string where
  "noPortWarning = ''You need to specify a port to create an ingress.''"

definition noMatchError :: string where
  "noMatchError = ''Unable to find the service that matches the port you want to expose.''"

definition planIngress ::
  "bool \<Rightarrow> V1Service list \<Rightarrow> int option \<Rightarrow> string option \<Rightarrow> string option \<Rightarrow> ingressPlan" where
  "planIngress create servicesToCreate ingPort podNm ns =
     (if \<not> create then IngressPlanned []
      else
        (case servicesToCreate of
           [] \<Rightarrow> IngressWarning noServiceWarning
         | [svc] \<Rightarrow> IngressPlanned [makeIngress podNm ns (serviceName svc) (servicePort svc)]
         | _ \<Rightarrow>
             if \<not> truthyNumber ingPort then IngressWarning noPortWarning
             else
               (case find (\<lambda>svc. servicePort svc = ingPort) servicesToCreate of
                  Some matchingService \<Rightarrow>
                    IngressPlanned
                      [makeIngress podNm ns (serviceName matchingService)
                         (servicePort matchingService)]
                | None \<Rightarrow> IngressError noMatchError)))"

section \<open>Sanitizing the manifest (deployToKube, lines 313-337)\<close>

text \<open>\<open>delete port.hostPort\<close>\<close>

definition sanitizePort :: "V1ContainerPort \<Rightarrow> V1ContainerPort" where
  "sanitizePort p = p\<lparr>hostPort := None\<rparr>"

text \<open>The body of the \<open>forEach\<close> of line 321: one container.\<close>

definition sanitizeContainer :: "V1Container \<Rightarrow> V1Container" where
  "sanitizeContainer c =
     c\<lparr>volumeMounts := None,
       ports := (case ports c of None \<Rightarrow> None | Some ps \<Rightarrow> Some (map sanitizePort ps))\<rparr>"

text \<open>Lines 315-317: \<open>delete bodyPod.spec.volumes\<close>.\<close>

definition removeVolumes :: "V1Pod \<Rightarrow> V1Pod" where
  "removeVolumes pod =
     (case spec pod of None \<Rightarrow> pod | Some sp \<Rightarrow> pod\<lparr>spec := Some (sp\<lparr>volumes := None\<rparr>)\<rparr>)"

text \<open>Lines 319-337: the containers, when services are used.\<close>

definition removeHostPorts :: "V1Pod \<Rightarrow> V1Pod" where
  "removeHostPorts pod =
     (case spec pod of None \<Rightarrow> pod
      | Some sp \<Rightarrow>
          (case containers sp of None \<Rightarrow> pod
           | Some cs \<Rightarrow> pod\<lparr>spec := Some (sp\<lparr>containers := Some (map sanitizeContainer cs)\<rparr>)\<rparr>))"

definition sanitize :: "bool \<Rightarrow> V1Pod \<Rightarrow> V1Pod" where
  "sanitize usingServices pod =
     (let pod1 = removeVolumes pod in
      if usingServices then removeHostPorts pod1 else pod1)"

text \<open>
  Lines 296-298: a creation timestamp that is there becomes a \<open>Date\<close>. An empty text
  is false and stays.
\<close>

definition convertTimestamp :: "V1Pod \<Rightarrow> V1Pod" where
  "convertTimestamp pod =
     (case metadata pod of None \<Rightarrow> pod
      | Some m \<Rightarrow>
          (case creationTimestamp m of
             None \<Rightarrow> pod
           | Some (TimeText t) \<Rightarrow>
               if t = [] then pod
               else pod\<lparr>metadata := Some (m\<lparr>creationTimestamp := Some (TimeDate t)\<rparr>)\<rparr>
           | Some (TimeDate t) \<Rightarrow>
               pod\<lparr>metadata := Some (m\<lparr>creationTimestamp := Some (TimeDate t)\<rparr>)\<rparr>))"

section \<open>The host bridge and the state of the component\<close>

datatype jserror = JsError string

fun message :: "jserror \<Rightarrow> string" where
  "message (JsError m) = m"

record telemetryProps =
  useServices :: bool
  useRoutes :: bool
  createIngressProp :: "bool option"
  isOpenshift :: "bool option"
  errorMessage :: "string option"

text \<open>One constructor for each \<open>window.*\<close> operation the component calls.\<close>

datatype call =
  ListSimpleContainersByLabel string string
| GeneratePodmanKube string "string list"
| KubernetesGetCurrentContextName
| KubernetesGetCurrentNamespace
| KubernetesListNamespaces
| KubernetesIsAPIGroupSupported string
| KubernetesReadNamespacedConfigMap string string
| KubernetesCreatePod "string option" V1Pod
| KubernetesReadNamespacedPod string string
| KubernetesCreateService "string option" V1Service
| OpenshiftCreateRoute "string option" V1Route
| KubernetesCreateIngress "string option" V1Ingress
| TelemetryTrack string telemetryProps

text \<open>
  Modelled from the spec: the host bridge (\<open>window.*\<close>) is not part of this file, so it
  is a parameter, with the results section 6 of the specification gives its operations.
  What an operation answers may depend on everything the component has called before,
  so each operation takes the list of earlier calls. An operation whose promise can
  reject answers \<open>Inl\<close> the error. Section 6 gives \<open>listContainersByLabel\<close>,
  \<open>generateManifestForContainers\<close>, \<open>getCurrentContextName\<close> and
  \<open>getCurrentNamespace\<close> a plain result and no failure, and says of \<open>emitEvent\<close>
  (\<open>telemetryTrack\<close>) that it never fails the main flow; these have no \<open>Inl\<close> here.
\<close>

record bridge =
  listSimpleContainersByLabel :: "call list \<Rightarrow> string \<Rightarrow> string \<Rightarrow> string list"
  generatePodmanKube :: "call list \<Rightarrow> string \<Rightarrow> string list \<Rightarrow> string"
  kubernetesGetCurrentContextName :: "call list \<Rightarrow> string option"
  kubernetesGetCurrentNamespace :: "call list \<Rightarrow> string option"
  kubernetesListNamespaces :: "call list \<Rightarrow> jserror + string option list"
  kubernetesIsAPIGroupSupported :: "call list \<Rightarrow> string \<Rightarrow> jserror + bool"
  kubernetesReadNamespacedConfigMap :: "call list \<Rightarrow> string \<Rightarrow> string \<Rightarrow> jserror + string option"
  kubernetesCreatePod :: "call list \<Rightarrow> string option \<Rightarrow> V1Pod \<Rightarrow> jserror + V1Pod"
  kubernetesReadNamespacedPod :: "call list \<Rightarrow> string \<Rightarrow> string \<Rightarrow> jserror + V1Pod"
  kubernetesCreateService :: "call list \<Rightarrow> string option \<Rightarrow> V1Service \<Rightarrow> jserror + unit"
  openshiftCreateRoute :: "call list \<Rightarrow> string option \<Rightarrow> V1Route \<Rightarrow> jserror + V1Route"
  kubernetesCreateIngress :: "call list \<Rightarrow> string option \<Rightarrow> V1Ingress \<Rightarrow> jserror + unit"

text \<open>
  The variables of the script block. \<open>bodyPod\<close> holds a reference: the manifest object
  lives in \<open>heap\<close>, and \<open>bodyPod\<close> is its address, so that \<open>let previousPod = bodyPod\<close>
  copies an address and a \<open>delete\<close> through either name changes the one object.
  \<open>calls\<close> is the list of bridge calls made so far, oldest first. \<open>timers\<close> are the
  handles of the intervals the host will still fire and \<open>nextTimer\<close> the handle
  \<open>setInterval\<close> hands out next. \<open>kubeDetails\<close>, the YAML text shown in the editor, is
  display only and left out.
\<close>

record state =
  heap :: "nat \<Rightarrow> V1Pod option"
  nextAddress :: nat
  bodyPod :: "nat option"
  defaultContextName :: "string option"
  currentNamespace :: "string option"
  allNamespaces :: "string option list option"
  deployStarted :: bool
  deployFinished :: bool
  deployError :: string
  deployWarning :: string
  updatePodInterval :: "nat option"
  openshiftConsoleURL :: "string option"
  openshiftRouteGroupSupported :: bool
  deployUsingServices :: bool
  deployUsingRoutes :: bool
  deployUsingRestrictedSecurityContext :: bool
  createdPod :: "V1Pod option"
  createIngress :: bool
  ingressPort :: "int option"
  containerPortArray :: "int option list"
  createdRoutes :: "V1Route list"
  calls :: "call list"
  timers :: "nat set"
  nextTimer :: nat

text \<open>The declarations of lines 21-44: the state before \<open>onMount\<close>.\<close>

definition initialState :: state where
  "initialState =
     \<lparr> heap = (\<lambda>_. None), nextAddress = 0, bodyPod = None,
       defaultContextName = None, currentNamespace = None, allNamespaces = None,
       deployStarted = False, deployFinished = False, deployError = [], deployWarning = [],
       updatePodInterval = None, openshiftConsoleURL = None,
       openshiftRouteGroupSupported = False,
       deployUsingServices = True, deployUsingRoutes = True,
       deployUsingRestrictedSecurityContext = False,
       createdPod = None, createIngress = False, ingressPort = None,
       containerPortArray = [], createdRoutes = [],
       calls = [], timers = {}, nextTimer = 0 \<rparr>"

text \<open>The manifest the form holds: the object \<open>bodyPod\<close> refers to.\<close>

definition manifest :: "state \<Rightarrow> V1Pod option" where
  "manifest s = (case bodyPod s of None \<Rightarrow> None | Some a \<Rightarrow> heap s a)"

text \<open>
  A mutation in place: the object at address \<open>a\<close> now has the value \<open>pod\<close>. Every
  variable that holds \<open>a\<close> sees the change.
\<close>

definition store :: "nat \<Rightarrow> V1Pod \<Rightarrow> state \<Rightarrow> state" where
  "store a pod s = s\<lparr>heap := (heap s)(a \<mapsto> pod)\<rparr>"

text \<open>\<open>clearInterval(updatePodInterval)\<close>; clearing \<open>undefined\<close> does nothing.\<close>

definition clearInterval :: "nat option \<Rightarrow> state \<Rightarrow> state" where
  "clearInterval h s = (case h of None \<Rightarrow> s | Some t \<Rightarrow> s\<lparr>timers := timers s - {t}\<rparr>)"

text \<open>\<open>updatePodInterval = setInterval(..., 2000)\<close>\<close>

definition setInterval :: "state \<Rightarrow> state" where
  "setInterval s =
     s\<lparr>updatePodInterval := Some (nextTimer s),
       timers := insert (nextTimer s) (timers s),
       nextTimer := Suc (nextTimer s)\<rparr>"

definition recordCall :: "call \<Rightarrow> state \<Rightarrow> state" where
  "recordCall c s = s\<lparr>calls := calls s @ [c]\<rparr>"

section \<open>deployToKube (lines 159-381)\<close>

text \<open>Lines 160-168: every attempt starts by resetting the previous one.\<close>

definition resetAttempt :: "state \<Rightarrow> state" where
  "resetAttempt s =
     (clearInterval (updatePodInterval s)
        (s\<lparr>deployStarted := True, deployFinished := False, deployError := [],
           deployWarning := [], createdPod := None\<rparr>))
     \<lparr>createdRoutes := []\<rparr>"

text \<open>Lines 301-308: \<open>eventProperties\<close>.\<close>

definition eventProperties :: "state \<Rightarrow> telemetryProps" where
  "eventProperties s =
     \<lparr> useServices = deployUsingServices s,
       useRoutes = deployUsingRoutes s,
       createIngressProp = Some (createIngress s),
       isOpenshift = (if openshiftRouteGroupSupported s then Some True else None),
       errorMessage = None \<rparr>"

text \<open>
  The loops of lines 347-360. Each \<open>await\<close> is one bridge call, answered from the calls
  made before it; a rejected promise leaves the loop (and the \<open>try\<close> block) at once,
  with the state as it is then.
\<close>

fun createServices :: "bridge \<Rightarrow> V1Service list \<Rightarrow> state \<Rightarrow> jserror \<times> state + state" where
  "createServices br [] s = Inr s"
| "createServices br (service # rest) s =
     (let s1 = recordCall (KubernetesCreateService (currentNamespace s) service) s in
      case kubernetesCreateService br (calls s) (currentNamespace s) service of
        Inl err \<Rightarrow> Inl (err, s1)
      | Inr _ \<Rightarrow> createServices br rest s1)"

fun createRoutes :: "bridge \<Rightarrow> V1Route list \<Rightarrow> state \<Rightarrow> jserror \<times> state + state" where
  "createRoutes br [] s = Inr s"
| "createRoutes br (route # rest) s =
     (let s1 = recordCall (OpenshiftCreateRoute (currentNamespace s) route) s in
      case openshiftCreateRoute br (calls s) (currentNamespace s) route of
        Inl err \<Rightarrow> Inl (err, s1)
      | Inr createdRoute \<Rightarrow>
          createRoutes br rest (s1\<lparr>createdRoutes := createdRoutes s1 @ [createdRoute]\<rparr>))"

fun createIngresses :: "bridge \<Rightarrow> V1Ingress list \<Rightarrow> state \<Rightarrow> jserror \<times> state + state" where
  "createIngresses br [] s = Inr s"
| "createIngresses br (ingress # rest) s =
     (let s1 = recordCall (KubernetesCreateIngress (currentNamespace s) ingress) s in
      case kubernetesCreateIngress br (calls s) (currentNamespace s) ingress of
        Inl err \<Rightarrow> Inl (err, s1)
      | Inr _ \<Rightarrow> createIngresses br rest s1)"

text \<open>
  Lines 315-341: what the mutations of the \<open>try\<close> block make of the manifest object.
  \<open>ensureRestrictedSecurityContext\<close> comes from \<open>pod-utils\<close>, which is not part of
  this file: it is the parameter \<open>ensureRestricted\<close>, the change it makes to the object.
\<close>

definition sanitizedPod :: "(V1Pod \<Rightarrow> V1Pod) \<Rightarrow> state \<Rightarrow> V1Pod \<Rightarrow> V1Pod" where
  "sanitizedPod ensureRestricted s pod =
     (let pod1 = sanitize (deployUsingServices s) pod in
      if deployUsingRestrictedSecurityContext s then ensureRestricted pod1 else pod1)"

text \<open>Line 344: \<open>createdPod = await window.kubernetesCreatePod(currentNamespace, bodyPod)\<close>.\<close>

definition createPod :: "bridge \<Rightarrow> V1Pod \<Rightarrow> state \<Rightarrow> jserror \<times> state + state" where
  "createPod br pod s =
     (let s1 = recordCall (KubernetesCreatePod (currentNamespace s) pod) s in
      case kubernetesCreatePod br (calls s) (currentNamespace s) pod of
        Inl err \<Rightarrow> Inl (err, s1)
      | Inr created \<Rightarrow> Inr (s1\<lparr>createdPod := Some created\<rparr>))"

text \<open>Lines 362-368: the telemetry event and the interval, when nothing was rejected.\<close>

definition finishAttempt :: "telemetryProps \<Rightarrow> state \<Rightarrow> state" where
  "finishAttempt props s = setInterval (recordCall (TelemetryTrack ''deployToKube'' props) s)"

text \<open>
  The \<open>try\<close> block, lines 312-368. \<open>a\<close> is the address in \<open>bodyPod\<close> and \<open>pod\<close> the
  object there when the block starts; the block changes that object in place and sends
  it.
\<close>

definition tryBlock ::
  "bridge \<Rightarrow> (V1Pod \<Rightarrow> V1Pod) \<Rightarrow> nat \<Rightarrow> V1Pod \<Rightarrow> V1Service list \<Rightarrow> V1Route list \<Rightarrow>
   V1Ingress list \<Rightarrow> telemetryProps \<Rightarrow> state \<Rightarrow> jserror \<times> state + state" where
  "tryBlock br ensureRestricted a pod servicesToCreate routesToCreate ingressesToCreate props s =
     (let sent = sanitizedPod ensureRestricted s pod;
          s1 = store a sent s
      in
      case createPod br sent s1 of
        Inl e \<Rightarrow> Inl e
      | Inr s2 \<Rightarrow>
          (case createServices br servicesToCreate s2 of
             Inl e \<Rightarrow> Inl e
           | Inr s3 \<Rightarrow>
               (case createRoutes br routesToCreate s3 of
                  Inl e \<Rightarrow> Inl e
                | Inr s4 \<Rightarrow>
                    (case createIngresses br ingressesToCreate s4 of
                       Inl e \<Rightarrow> Inl e
                     | Inr s5 \<Rightarrow> Inr (finishAttempt props s5)))))"

text \<open>
  The \<open>catch\<close> block, lines 370-379. \<open>previousPod\<close> is the address line 310 copied;
  \<open>deployError\<close> keeps the text of the error.
\<close>

definition catchBlock :: "nat option \<Rightarrow> telemetryProps \<Rightarrow> jserror \<Rightarrow> state \<Rightarrow> state" where
  "catchBlock previousPod props err s =
     (recordCall (TelemetryTrack ''deployToKube'' (props\<lparr>errorMessage := Some (message err)\<rparr>))
        (s\<lparr>bodyPod := previousPod\<rparr>))
     \<lparr>deployError := message err, deployStarted := False, deployFinished := False\<rparr>"

text \<open>
  The whole function. The first component of the result is the error the function
  itself raises: reading \<open>bodyPod.metadata\<close> while \<open>bodyPod\<close> is still undefined is a
  \<open>TypeError\<close> that nothing catches.
\<close>

definition deployToKube :: "bridge \<Rightarrow> (V1Pod \<Rightarrow> V1Pod) \<Rightarrow> state \<Rightarrow> jserror option \<times> state" where
  "deployToKube br ensureRestricted s0 =
     (let s = resetAttempt s0 in
      case bodyPod s of
        None \<Rightarrow> (Some (JsError ''TypeError''), s)
      | Some a \<Rightarrow>
          (case heap s a of
             None \<Rightarrow> (Some (JsError ''TypeError''), s)
           | Some pod \<Rightarrow>
               if \<not> truthyString (podName pod) then (None, s)
               else
                 (let planned =
                        planServices (deployUsingServices s)
                          (openshiftRouteGroupSupported s \<and> deployUsingRoutes s)
                          (currentNamespace s) pod;
                      servicesToCreate = fst planned;
                      routesToCreate = snd planned
                  in
                  case planIngress (createIngress s) servicesToCreate (ingressPort s)
                         (podName pod) (currentNamespace s) of
                    IngressWarning w \<Rightarrow> (None, s\<lparr>deployWarning := w, deployStarted := False\<rparr>)
                  | IngressError e \<Rightarrow> (None, s\<lparr>deployError := e\<rparr>)
                  | IngressPlanned ingressesToCreate \<Rightarrow>
                      (let pod1 = convertTimestamp pod;
                           s1 = store a pod1 s;
                           props = eventProperties s1;
                           previousPod = bodyPod s1
                       in
                       case tryBlock br ensureRestricted a pod1 servicesToCreate routesToCreate
                              ingressesToCreate props s1 of
                         Inr s2 \<Rightarrow> (None, s2)
                       | Inl (err, s2) \<Rightarrow> (None, catchBlock previousPod props err s2)))))"

section \<open>The status poller (lines 117-137)\<close>

definition podNamespace :: "V1Pod \<Rightarrow> string option" where
  "podNamespace pod = (case metadata pod of None \<Rightarrow> None | Some m \<Rightarrow> namespace m)"

definition podPhase :: "V1Pod \<Rightarrow> string option" where
  "podPhase pod = (case status pod of None \<Rightarrow> None | Some st \<Rightarrow> phase st)"

text \<open>
  \<open>updatePod\<close>, one run of it. A rejected read is caught by the \<open>.catch\<close> of line 367,
  which only logs.
\<close>

definition updatePod :: "bridge \<Rightarrow> state \<Rightarrow> state" where
  "updatePod br s =
     (case createdPod s of
        None \<Rightarrow> s
      | Some cp \<Rightarrow>
          (case podName cp of
             None \<Rightarrow> s
           | Some nm \<Rightarrow>
               (case podNamespace cp of
                  None \<Rightarrow> s
                | Some ns \<Rightarrow>
                    if nm = [] \<or> ns = [] then s
                    else
                      (let s1 = recordCall (KubernetesReadNamespacedPod nm ns) s in
                       case kubernetesReadNamespacedPod br (calls s) nm ns of
                         Inl err \<Rightarrow> s1
                       | Inr updatedPod \<Rightarrow>
                           (let s2 = s1\<lparr>createdPod := Some updatedPod\<rparr> in
                            if podPhase updatedPod = Some ''Running''
                            then recordCall
                                   (TelemetryTrack ''deployToKube.running''
                                      \<lparr> useServices = deployUsingServices s2,
                                        useRoutes = deployUsingRoutes s2,
                                        createIngressProp = None, isOpenshift = None,
                                        errorMessage = None \<rparr>)
                                   ((clearInterval (updatePodInterval s2) s2)
                                      \<lparr>deployFinished := True\<rparr>)
                            else s2)))))"

text \<open>\<open>onDestroy\<close>\<close>

definition onDestroy :: "state \<Rightarrow> state" where
  "onDestroy s = clearInterval (updatePodInterval s) s"

section \<open>onMount (lines 46-107)\<close>

text \<open>
  The body of the \<open>forEach\<close> of line 100, one container: its ports' \<open>hostPort\<close> values
  are pushed onto \<open>containerPortArray\<close> and its pull policy is overwritten. The second
  component collects the containers as the loop leaves them.
\<close>

definition mountContainer ::
  "V1Container \<Rightarrow> int option list \<times> V1Container list \<Rightarrow> int option list \<times> V1Container list" where
  "mountContainer c acc =
     (fold (\<lambda>p arr. arr @ [hostPort p]) (containerPorts c) (fst acc),
      snd acc @ [c\<lparr>imagePullPolicy := Some ''IfNotPresent''\<rparr>])"

text \<open>
  Lines 98-106, on the object at address \<open>a\<close>. Line 100 reads
  \<open>bodyPod.spec?.containers.forEach\<close>: with a \<open>spec\<close> that has no \<open>containers\<close> it
  raises a \<open>TypeError\<close>.
\<close>

definition mountContainers :: "nat \<Rightarrow> V1Pod \<Rightarrow> state \<Rightarrow> jserror option \<times> state" where
  "mountContainers a pod s =
     (case spec pod of
        None \<Rightarrow> (None, s)
      | Some sp \<Rightarrow>
          (case containers sp of
             None \<Rightarrow> (Some (JsError ''TypeError''), s)
           | Some cs \<Rightarrow>
               (let r = fold mountContainer cs (containerPortArray s, []) in
                (None,
                 (store a (pod\<lparr>spec := Some (sp\<lparr>containers := Some (snd r)\<rparr>)\<rparr>) s)
                 \<lparr>containerPortArray := fst r\<rparr>))))"

text \<open>Lines 79-83: the namespaces, when they can be listed.\<close>

definition mountNamespaces :: "bridge \<Rightarrow> state \<Rightarrow> state" where
  "mountNamespaces br s =
     (let s1 = recordCall KubernetesListNamespaces s in
      case kubernetesListNamespaces br (calls s) of
        Inl err \<Rightarrow> s1
      | Inr items \<Rightarrow> s1\<lparr>allNamespaces := Some items\<rparr>)"

text \<open>Lines 86-96: OpenShift routes and the console link.\<close>

definition mountOpenshift :: "bridge \<Rightarrow> state \<Rightarrow> state" where
  "mountOpenshift br s =
     (let s1 = recordCall (KubernetesIsAPIGroupSupported ''route.openshift.io'') s in
      case kubernetesIsAPIGroupSupported br (calls s) ''route.openshift.io'' of
        Inl err \<Rightarrow> s1
      | Inr supported \<Rightarrow>
          (let s2 = s1\<lparr>openshiftRouteGroupSupported := supported\<rparr>;
               s3 = recordCall
                      (KubernetesReadNamespacedConfigMap ''console-public''
                         ''openshift-config-managed'') s2
           in
           case kubernetesReadNamespacedConfigMap br (calls s2) ''console-public''
                  ''openshift-config-managed'' of
             Inl err \<Rightarrow> s3
           | Inr consoleURL \<Rightarrow> s3\<lparr>openshiftConsoleURL := consoleURL\<rparr>))"

text \<open>
  Lines 50-59: the manifest is generated and parsed. \<open>jsYamlLoad\<close> is the YAML codec, a
  parameter. The parsed object is a new one, at a fresh address.
\<close>

definition mountManifest ::
  "bridge \<Rightarrow> (string \<Rightarrow> V1Pod) \<Rightarrow> string \<Rightarrow> string \<Rightarrow> string \<Rightarrow> state \<Rightarrow> state" where
  "mountManifest br jsYamlLoad resourceId engineId resourceType s =
     (let s1 =
            (if resourceType = ''compose''
             then recordCall (ListSimpleContainersByLabel ''com.docker.compose.project'' resourceId) s
             else s);
          containerIds =
            (if resourceType = ''compose''
             then listSimpleContainersByLabel br (calls s) ''com.docker.compose.project'' resourceId
             else [resourceId]);
          kubeDetails = generatePodmanKube br (calls s1) engineId containerIds;
          s2 = recordCall (GeneratePodmanKube engineId containerIds) s1;
          a = nextAddress s2
      in (store a (jsYamlLoad kubeDetails) s2)\<lparr>nextAddress := Suc a, bodyPod := Some a\<rparr>)"

text \<open>Lines 61-76: the context and the namespace, \<open>default\<close> when none is current.\<close>

definition mountContext :: "bridge \<Rightarrow> state \<Rightarrow> state" where
  "mountContext br s =
     (let s1 = (recordCall KubernetesGetCurrentContextName s)
                 \<lparr>defaultContextName := kubernetesGetCurrentContextName br (calls s)\<rparr>;
          grabCurrentNamespace = kubernetesGetCurrentNamespace br (calls s1);
          s2 = (recordCall KubernetesGetCurrentNamespace s1)
                 \<lparr>currentNamespace :=
                    (if \<not> truthyString grabCurrentNamespace then Some ''default''
                     else grabCurrentNamespace)\<rparr>
      in if \<not> truthyString (currentNamespace s2) then s2\<lparr>currentNamespace := Some ''default''\<rparr>
         else s2)"

definition onMount ::
  "bridge \<Rightarrow> (string \<Rightarrow> V1Pod) \<Rightarrow> string \<Rightarrow> string \<Rightarrow> string \<Rightarrow> state \<Rightarrow> jserror option \<times> state" where
  "onMount br jsYamlLoad resourceId engineId resourceType s =
     (let s1 = mountManifest br jsYamlLoad resourceId engineId resourceType s;
          s2 = mountOpenshift br (mountNamespaces br (mountContext br s1))
      in
      case bodyPod s2 of
        None \<Rightarrow> (Some (JsError ''TypeError''), s2)
      | Some a \<Rightarrow>
          (case heap s2 a of
             None \<Rightarrow> (Some (JsError ''TypeError''), s2)
           | Some pod \<Rightarrow> mountContainers a pod s2))"

section \<open>The reactive block and the form (lines 383-389 and the template)\<close>

text \<open>
  Lines 385-389, on a manifest: when \<open>metadata.labels\<close> is there, its \<open>app\<close> entry
  becomes \<open>metadata.name ?? ''\<close>.
\<close>

definition syncLabel :: "V1Pod \<Rightarrow> V1Pod" where
  "syncLabel pod =
     (case metadata pod of
        None \<Rightarrow> pod
      | Some m \<Rightarrow>
          (case labels m of
             None \<Rightarrow> pod
           | Some ls \<Rightarrow>
               pod\<lparr>metadata :=
                     Some (m\<lparr>labels :=
                              Some (AList.update ''app''
                                      (case name m of None \<Rightarrow> [] | Some n \<Rightarrow> n) ls)\<rparr>)\<rparr>))"

text \<open>The block as the framework runs it: on the object \<open>bodyPod\<close> refers to, if any.\<close>

definition labelSync :: "state \<Rightarrow> state" where
  "labelSync s =
     (case bodyPod s of
        None \<Rightarrow> s
      | Some a \<Rightarrow> (case heap s a of None \<Rightarrow> s | Some pod \<Rightarrow> store a (syncLabel pod) s))"

text \<open>
  The Pod Name input, \<open>bind:value={bodyPod.metadata.name}\<close>. It is rendered only when
  \<open>bodyPod?.metadata\<close> is there; typing assigns the name, and the reactive block runs
  on the changed manifest.
\<close>

definition setPodName :: "string \<Rightarrow> state \<Rightarrow> state" where
  "setPodName v s =
     (case bodyPod s of
        None \<Rightarrow> s
      | Some a \<Rightarrow>
          (case heap s a of
             None \<Rightarrow> s
           | Some pod \<Rightarrow>
               (case metadata pod of
                  None \<Rightarrow> s
                | Some m \<Rightarrow> labelSync (store a (pod\<lparr>metadata := Some (m\<lparr>name := Some v\<rparr>)\<rparr>) s))))"

text \<open>
  What can happen to a mounted component: the user edits the form, clicks Deploy, the
  host fires an interval, the component is destroyed. A handler runs to its end before
  the next event is taken, and the reactive block runs after a handler that assigns to
  \<open>bodyPod\<close>. An interval the host has cleared does not fire. The events are not
  restricted to those the template offers at the moment (the Deploy button is hidden
  while \<open>deployStarted\<close> is true, the selectors offer their options only): what holds
  after every sequence of events holds after those.
\<close>

datatype event =
  InputPodName string
| CheckUseServices bool
| CheckUseRestricted bool
| CheckCreateIngress bool
| SelectIngressPort "int option"
| CheckUseRoutes bool
| SelectNamespace "string option"
| ClickDeploy
| IntervalFires nat
| Destroy

fun handleEvent :: "bridge \<Rightarrow> (V1Pod \<Rightarrow> V1Pod) \<Rightarrow> event \<Rightarrow> state \<Rightarrow> state" where
  "handleEvent br ensureRestricted (InputPodName v) s = setPodName v s"
| "handleEvent br ensureRestricted (CheckUseServices b) s = s\<lparr>deployUsingServices := b\<rparr>"
| "handleEvent br ensureRestricted (CheckUseRestricted b) s =
     s\<lparr>deployUsingRestrictedSecurityContext := b\<rparr>"
| "handleEvent br ensureRestricted (CheckCreateIngress b) s = s\<lparr>createIngress := b\<rparr>"
| "handleEvent br ensureRestricted (SelectIngressPort v) s = s\<lparr>ingressPort := v\<rparr>"
| "handleEvent br ensureRestricted (CheckUseRoutes b) s = s\<lparr>deployUsingRoutes := b\<rparr>"
| "handleEvent br ensureRestricted (SelectNamespace v) s = s\<lparr>currentNamespace := v\<rparr>"
| "handleEvent br ensureRestricted ClickDeploy s = labelSync (snd (deployToKube br ensureRestricted s))"
| "handleEvent br ensureRestricted (IntervalFires h) s =
     (if h \<in> timers s then updatePod br s else s)"
| "handleEvent br ensureRestricted Destroy s = onDestroy s"

text \<open>
  The component when the user lets \<open>onMount\<close> run to its end before touching the form:
  \<open>onMount\<close> as one piece, the reactive block, then the events. \<open>onMount\<close> is an \<open>async\<close>
  function and the form is live while it waits at an \<open>await\<close>; the runs in which an
  event falls among its stretches are those of \<open>runComponent\<close>, in the last section of
  the model.
\<close>

definition mounted ::
  "bridge \<Rightarrow> (string \<Rightarrow> V1Pod) \<Rightarrow> string \<Rightarrow> string \<Rightarrow> string \<Rightarrow> state" where
  "mounted br jsYamlLoad resourceId engineId resourceType =
     labelSync (snd (onMount br jsYamlLoad resourceId engineId resourceType initialState))"

definition runEvents :: "bridge \<Rightarrow> (V1Pod \<Rightarrow> V1Pod) \<Rightarrow> event list \<Rightarrow> state \<Rightarrow> state" where
  "runEvents br ensureRestricted es s = fold (handleEvent br ensureRestricted) es s"


section \<open>onMount as the host runs it: one stretch at a time\<close>

text \<open>
  \<open>onMount\<close> is an \<open>async\<close> function. At every \<open>await\<close> it hands its call to the bridge
  and returns to the host; it goes on when the answer is there, and until then the host
  may run the handler of any event: the form is on screen, and the Deploy button is
  rendered as soon as \<open>deployStarted\<close> is false, which it is from the declaration. A
  \<open>mountPoint\<close> is the \<open>await\<close> at which \<open>onMount\<close> stands, with the answer it will
  receive: the call is made, and answered from the calls before it, when \<open>onMount\<close>
  suspends, and the answer is used when it resumes. The awaits are those of lines 51,
  53 or 55, 62, 65, 80, 87 and 88; \<open>MountEnded\<close> holds the error \<open>onMount\<close> ended with,
  if any.
\<close>

datatype mountPoint =
  MountStart
| AwaitContainers "string list"
| AwaitKube string
| AwaitContextName "string option"
| AwaitCurrentNamespace "string option"
| AwaitNamespaces "jserror + string option list"
| AwaitAPIGroup "jserror + bool"
| AwaitConfigMap "jserror + string option"
| MountEnded "jserror option"

text \<open>
  Lines 98-106, the last stretch, on the object \<open>bodyPod\<close> refers to when \<open>onMount\<close>
  gets there.
\<close>

definition mountPorts :: "state \<Rightarrow> mountPoint \<times> state" where
  "mountPorts s =
     (case bodyPod s of
        None \<Rightarrow> (MountEnded (Some (JsError ''TypeError'')), s)
      | Some a \<Rightarrow>
          (case heap s a of
             None \<Rightarrow> (MountEnded (Some (JsError ''TypeError'')), s)
           | Some pod \<Rightarrow>
               (MountEnded (fst (mountContainers a pod s)), snd (mountContainers a pod s))))"

text \<open>
  \<open>onMount\<close> from one \<open>await\<close> to the next. The assignment of line 59 makes the
  framework run the reactive block before the host takes another event. A rejected
  call of lines 80, 87 or 88 is caught (lines 81 and 93): the \<open>catch\<close> of line 93 skips
  what is left of the \<open>try\<close> block.
\<close>

fun resumeOnMount ::
  "bridge \<Rightarrow> (string \<Rightarrow> V1Pod) \<Rightarrow> string \<Rightarrow> string \<Rightarrow> string \<Rightarrow> mountPoint \<Rightarrow> state
     \<Rightarrow> mountPoint \<times> state" where
  "resumeOnMount br jsYamlLoad resourceId engineId resourceType MountStart s =
     (if resourceType = ''compose''
      then (AwaitContainers
              (listSimpleContainersByLabel br (calls s) ''com.docker.compose.project'' resourceId),
            recordCall (ListSimpleContainersByLabel ''com.docker.compose.project'' resourceId) s)
      else (AwaitKube (generatePodmanKube br (calls s) engineId [resourceId]),
            recordCall (GeneratePodmanKube engineId [resourceId]) s))"
| "resumeOnMount br jsYamlLoad resourceId engineId resourceType (AwaitContainers containerIds) s =
     (AwaitKube (generatePodmanKube br (calls s) engineId containerIds),
      recordCall (GeneratePodmanKube engineId containerIds) s)"
| "resumeOnMount br jsYamlLoad resourceId engineId resourceType (AwaitKube kubeDetails) s =
     (let a = nextAddress s;
          s1 = (store a (jsYamlLoad kubeDetails) s)\<lparr>nextAddress := Suc a, bodyPod := Some a\<rparr>
      in (AwaitContextName (kubernetesGetCurrentContextName br (calls s1)),
          labelSync (recordCall KubernetesGetCurrentContextName s1)))"
| "resumeOnMount br jsYamlLoad resourceId engineId resourceType (AwaitContextName v) s =
     (let s1 = s\<lparr>defaultContextName := v\<rparr>
      in (AwaitCurrentNamespace (kubernetesGetCurrentNamespace br (calls s1)),
          recordCall KubernetesGetCurrentNamespace s1))"
| "resumeOnMount br jsYamlLoad resourceId engineId resourceType
     (AwaitCurrentNamespace grabCurrentNamespace) s =
     (let s1 = s\<lparr>currentNamespace :=
                   (if \<not> truthyString grabCurrentNamespace then Some ''default''
                    else grabCurrentNamespace)\<rparr>;
          s2 = (if \<not> truthyString (currentNamespace s1)
                then s1\<lparr>currentNamespace := Some ''default''\<rparr> else s1)
      in (AwaitNamespaces (kubernetesListNamespaces br (calls s2)),
          recordCall KubernetesListNamespaces s2))"
| "resumeOnMount br jsYamlLoad resourceId engineId resourceType (AwaitNamespaces r) s =
     (let s1 = (case r of Inl err \<Rightarrow> s | Inr items \<Rightarrow> s\<lparr>allNamespaces := Some items\<rparr>)
      in (AwaitAPIGroup (kubernetesIsAPIGroupSupported br (calls s1) ''route.openshift.io''),
          recordCall (KubernetesIsAPIGroupSupported ''route.openshift.io'') s1))"
| "resumeOnMount br jsYamlLoad resourceId engineId resourceType (AwaitAPIGroup r) s =
     (case r of
        Inl err \<Rightarrow> mountPorts s
      | Inr supported \<Rightarrow>
          (let s1 = s\<lparr>openshiftRouteGroupSupported := supported\<rparr>
           in (AwaitConfigMap
                 (kubernetesReadNamespacedConfigMap br (calls s1) ''console-public''
                    ''openshift-config-managed''),
               recordCall
                 (KubernetesReadNamespacedConfigMap ''console-public''
                    ''openshift-config-managed'') s1)))"
| "resumeOnMount br jsYamlLoad resourceId engineId resourceType (AwaitConfigMap r) s =
     mountPorts (case r of Inl err \<Rightarrow> s | Inr consoleURL \<Rightarrow> s\<lparr>openshiftConsoleURL := consoleURL\<rparr>)"
| "resumeOnMount br jsYamlLoad resourceId engineId resourceType (MountEnded e) s =
     (MountEnded e, s)"

text \<open>
  What the host does next with the component: it lets \<open>onMount\<close> go on to its next
  \<open>await\<close>, or it runs the handler of an event. A run is a list of such actions from the
  component as created, \<open>onMount\<close> not yet started. \<open>mounted\<close> above is the run in which
  no event comes before \<open>onMount\<close> has ended (lemma \<open>mounted_run\<close>).
\<close>

datatype action = OnMountResumes | Event event

fun perform ::
  "bridge \<Rightarrow> (V1Pod \<Rightarrow> V1Pod) \<Rightarrow> (string \<Rightarrow> V1Pod) \<Rightarrow> string \<Rightarrow> string \<Rightarrow> string \<Rightarrow> action
     \<Rightarrow> mountPoint \<times> state \<Rightarrow> mountPoint \<times> state" where
  "perform br ensureRestricted jsYamlLoad resourceId engineId resourceType OnMountResumes ps =
     resumeOnMount br jsYamlLoad resourceId engineId resourceType (fst ps) (snd ps)"
| "perform br ensureRestricted jsYamlLoad resourceId engineId resourceType (Event e) ps =
     (fst ps, handleEvent br ensureRestricted e (snd ps))"

definition runComponent ::
  "bridge \<Rightarrow> (V1Pod \<Rightarrow> V1Pod) \<Rightarrow> (string \<Rightarrow> V1Pod) \<Rightarrow> string \<Rightarrow> string \<Rightarrow> string \<Rightarrow> action list
     \<Rightarrow> mountPoint \<times> state \<Rightarrow> mountPoint \<times> state" where
  "runComponent br ensureRestricted jsYamlLoad resourceId engineId resourceType acts ps =
     fold (perform br ensureRestricted jsYamlLoad resourceId engineId resourceType) acts ps"

text \<open>The component as created: the variables as declared, \<open>onMount\<close> not yet started.\<close>

definition created :: "mountPoint \<times> state" where
  "created = (MountStart, initialState)"

section \<open>Vocabulary of the statements and example inputs\<close>

text \<open>Every port entry of the manifest, in the order the two nested loops visit them.\<close>

definition podPorts :: "V1Pod \<Rightarrow> V1ContainerPort list" where
  "podPorts pod = concat (map containerPorts (podContainers pod))"

text \<open>
  The port entries with a non-empty \<open>hostPort\<close>: one that passes the test
  \<open>if (port.hostPort)\<close>, so present and not 0.
\<close>

definition exposedPorts :: "V1Pod \<Rightarrow> V1ContainerPort list" where
  "exposedPorts pod = filter (\<lambda>p. truthyNumber (hostPort p)) (podPorts pod)"

text \<open>
  What \<open>deployToKube\<close> plans for the manifest \<open>pod\<close> in the state \<open>s\<close>: the arguments
  are the ones lines 178-293 read from the variables of the component.
\<close>

definition plannedServices :: "state \<Rightarrow> V1Pod \<Rightarrow> V1Service list" where
  "plannedServices s pod =
     fst (planServices (deployUsingServices s)
            (openshiftRouteGroupSupported s \<and> deployUsingRoutes s) (currentNamespace s) pod)"

definition plannedRoutes :: "state \<Rightarrow> V1Pod \<Rightarrow> V1Route list" where
  "plannedRoutes s pod =
     snd (planServices (deployUsingServices s)
            (openshiftRouteGroupSupported s \<and> deployUsingRoutes s) (currentNamespace s) pod)"

definition plannedIngress :: "state \<Rightarrow> V1Pod \<Rightarrow> ingressPlan" where
  "plannedIngress s pod =
     planIngress (createIngress s) (plannedServices s pod) (ingressPort s) (podName pod)
       (currentNamespace s)"

text \<open>
  The order the specification asks for: the Pod, then the services, the routes and the
  ingresses, each list in its own order.
\<close>

definition creationPlan ::
  "string option \<Rightarrow> V1Pod \<Rightarrow> V1Service list \<Rightarrow> V1Route list \<Rightarrow> V1Ingress list \<Rightarrow> call list" where
  "creationPlan ns pod svcs rts ings =
     KubernetesCreatePod ns pod # map (KubernetesCreateService ns) svcs
       @ map (OpenshiftCreateRoute ns) rts @ map (KubernetesCreateIngress ns) ings"

text \<open>The bridge rejects the creation call \<open>c\<close> when it comes after the calls \<open>h\<close>.\<close>

definition rejected :: "bridge \<Rightarrow> call list \<Rightarrow> call \<Rightarrow> bool" where
  "rejected br h c =
     (case c of
        KubernetesCreatePod ns pod \<Rightarrow> isl (kubernetesCreatePod br h ns pod)
      | KubernetesCreateService ns svc \<Rightarrow> isl (kubernetesCreateService br h ns svc)
      | OpenshiftCreateRoute ns rt \<Rightarrow> isl (openshiftCreateRoute br h ns rt)
      | KubernetesCreateIngress ns ing \<Rightarrow> isl (kubernetesCreateIngress br h ns ing)
      | _ \<Rightarrow> False)"

text \<open>
  The specification's sequencer, in its own words: the calls of a plan are made one
  after the other, and the first rejected one is the last. The result is the list of
  calls made and whether one was rejected.
\<close>

fun issue :: "bridge \<Rightarrow> call list \<Rightarrow> call list \<Rightarrow> call list \<times> bool" where
  "issue br h [] = (h, False)"
| "issue br h (c # cs) = (if rejected br h c then (h @ [c], True) else issue br (h @ [c]) cs)"

text \<open>The calls a loop has made when it ends, and whether it ended on a rejection.\<close>

definition trace :: "jserror \<times> state + state \<Rightarrow> call list \<times> bool" where
  "trace r = (case r of Inl (e, s) \<Rightarrow> (calls s, True) | Inr s \<Rightarrow> (calls s, False))"

text \<open>A state without what the creation loops write.\<close>

definition untracked :: "state \<Rightarrow> state" where
  "untracked s = s\<lparr>calls := [], createdRoutes := [], createdPod := None\<rparr>"

text \<open>A call in a few words, to show a list of calls.\<close>

fun callSummary :: "call \<Rightarrow> string" where
  "callSummary (KubernetesCreatePod ns pod) = ''pod '' @ templateString (podName pod)"
| "callSummary (KubernetesCreateService ns svc) = ''service '' @ templateString (serviceName svc)"
| "callSummary (OpenshiftCreateRoute ns rt) = ''route '' @ routeToName rt"
| "callSummary (KubernetesCreateIngress ns ing) =
     ''ingress to '' @ templateString (backendServiceName ing)"
| "callSummary (TelemetryTrack ev props) = ''event '' @ ev"
| "callSummary _ = ''other''"

text \<open>Every container of the manifest has the pull policy \<open>IfNotPresent\<close>.\<close>

definition pullsIfNotPresent :: "V1Pod \<Rightarrow> bool" where
  "pullsIfNotPresent pod =
     list_all (\<lambda>c. imagePullPolicy c = Some ''IfNotPresent'') (podContainers pod)"

text \<open>\<open>bodyPod.metadata?.labels\<close> is there; and the label \<open>app\<close>, if any.\<close>

definition hasLabels :: "V1Pod \<Rightarrow> bool" where
  "hasLabels pod = (case metadata pod of None \<Rightarrow> False | Some m \<Rightarrow> labels m \<noteq> None)"

definition appLabel :: "V1Pod \<Rightarrow> string option" where
  "appLabel pod =
     (case metadata pod of
        None \<Rightarrow> None
      | Some m \<Rightarrow> (case labels m of None \<Rightarrow> None | Some ls \<Rightarrow> map_of ls ''app''))"

text \<open>The pods the component has passed to \<open>kubernetesCreatePod\<close>, oldest first.\<close>

fun isCreatePod :: "call \<Rightarrow> bool" where
  "isCreatePod (KubernetesCreatePod ns pod) = True"
| "isCreatePod _ = False"

fun submitted :: "call \<Rightarrow> V1Pod option" where
  "submitted (KubernetesCreatePod ns pod) = Some pod"
| "submitted _ = None"

definition submittedPods :: "call list \<Rightarrow> V1Pod list" where
  "submittedPods cs = List.map_filter submitted cs"

text \<open>\<open>onMount\<close> has parsed the manifest (line 59); \<open>onMount\<close> has ended.\<close>

fun parsedAt :: "mountPoint \<Rightarrow> bool" where
  "parsedAt MountStart = False"
| "parsedAt (AwaitContainers ids) = False"
| "parsedAt (AwaitKube kubeDetails) = False"
| "parsedAt p = True"

fun endedAt :: "mountPoint \<Rightarrow> bool" where
  "endedAt (MountEnded e) = True"
| "endedAt p = False"

text \<open>
  The read \<open>updatePod\<close> would make in the state \<open>s\<close> is made and answers a pod whose
  phase is \<open>Running\<close>.
\<close>

definition observesRunning :: "bridge \<Rightarrow> state \<Rightarrow> bool" where
  "observesRunning br s =
     (case createdPod s of
        None \<Rightarrow> False
      | Some cp \<Rightarrow>
          (case podName cp of
             None \<Rightarrow> False
           | Some nm \<Rightarrow>
               (case podNamespace cp of
                  None \<Rightarrow> False
                | Some ns \<Rightarrow>
                    nm \<noteq> [] \<and> ns \<noteq> [] \<and>
                    (case kubernetesReadNamespacedPod br (calls s) nm ns of
                       Inl err \<Rightarrow> False
                     | Inr updatedPod \<Rightarrow> podPhase updatedPod = Some ''Running''))))"

subsection \<open>Example manifests\<close>

text \<open>
  A manifest with two containers: \<open>nginx\<close> maps host port 8080 to 80 and has a UDP port
  with no host port and a volume mount, \<open>api\<close> maps 9090 to 3000.
\<close>

definition webPod :: V1Pod where
  "webPod =
     \<lparr> metadata = Some \<lparr> name = Some ''web'', namespace = None,
                         labels = Some [(''app'', ''web'')], creationTimestamp = None \<rparr>,
       spec = Some \<lparr> containers = Some
                [\<lparr> containerName = Some ''nginx'',
                   ports = Some [\<lparr> hostPort = Some 8080, containerPort = Some 80, protocol = None \<rparr>,
                                 \<lparr> hostPort = None, containerPort = Some 53, protocol = Some ''UDP'' \<rparr>],
                   volumeMounts = Some [''data''], imagePullPolicy = Some ''Always'' \<rparr>,
                 \<lparr> containerName = Some ''api'',
                   ports = Some [\<lparr> hostPort = Some 9090, containerPort = Some 3000, protocol = Some ''TCP'' \<rparr>],
                   volumeMounts = None, imagePullPolicy = None \<rparr>],
              volumes = Some [''data''] \<rparr>,
       status = None \<rparr>"

text \<open>The manifest of the specification's end-to-end example: one container, 8080 to 80.\<close>

definition singlePod :: V1Pod where
  "singlePod =
     \<lparr> metadata = Some \<lparr> name = Some ''web'', namespace = None, labels = None,
                         creationTimestamp = None \<rparr>,
       spec = Some \<lparr> containers = Some
                [\<lparr> containerName = None,
                   ports = Some [\<lparr> hostPort = Some 8080, containerPort = Some 80, protocol = None \<rparr>],
                   volumeMounts = None, imagePullPolicy = None \<rparr>],
              volumes = None \<rparr>,
       status = None \<rparr>"

subsection \<open>Example states and bridges\<close>

text \<open>The form holding a manifest, namespace \<open>default\<close>, every option as declared.\<close>

definition formState :: "V1Pod \<Rightarrow> state" where
  "formState pod =
     initialState\<lparr>heap := [0 \<mapsto> pod], nextAddress := 1, bodyPod := Some 0,
       currentNamespace := Some ''default''\<rparr>"

text \<open>The same with the ingress box ticked and a choice in the port selector.\<close>

definition ingressForm :: "V1Pod \<Rightarrow> int option \<Rightarrow> state" where
  "ingressForm pod choice = (formState pod)\<lparr>createIngress := True, ingressPort := choice\<rparr>"

fun isReadCall :: "call \<Rightarrow> bool" where
  "isReadCall (KubernetesReadNamespacedPod nm ns) = True"
| "isReadCall _ = False"

text \<open>A pod as the cluster returns it: in a namespace and with a phase.\<close>

definition clusterPod :: "string option \<Rightarrow> V1Pod \<Rightarrow> string \<Rightarrow> V1Pod" where
  "clusterPod ns pod ph =
     pod\<lparr>metadata := map_option (\<lambda>m. m\<lparr>namespace := ns\<rparr>) (metadata pod),
         status := Some \<lparr>phase = Some ph\<rparr>\<rparr>"

text \<open>
  A plain Kubernetes cluster that accepts everything. It may not list namespaces and is
  not OpenShift; the manifest it generates parses to \<open>webPod\<close> (see \<open>parseWeb\<close>); a
  created pod is \<open>Pending\<close> at the first read and \<open>Running\<close> from the second.
\<close>

definition quietBridge :: bridge where
  "quietBridge =
     \<lparr> listSimpleContainersByLabel = (\<lambda>h l v. [''c1'', ''c2'']),
       generatePodmanKube = (\<lambda>h e ids. ''apiVersion: v1''),
       kubernetesGetCurrentContextName = (\<lambda>h. Some ''kind-kind''),
       kubernetesGetCurrentNamespace = (\<lambda>h. None),
       kubernetesListNamespaces = (\<lambda>h. Inl (JsError ''forbidden'')),
       kubernetesIsAPIGroupSupported = (\<lambda>h g. Inr False),
       kubernetesReadNamespacedConfigMap = (\<lambda>h n ns. Inl (JsError ''not found'')),
       kubernetesCreatePod = (\<lambda>h ns pod. Inr (clusterPod ns pod ''Pending'')),
       kubernetesReadNamespacedPod =
         (\<lambda>h n ns. Inr (clusterPod (Some ns) webPod
                          (if list_ex isReadCall h then ''Running'' else ''Pending''))),
       kubernetesCreateService = (\<lambda>h ns svc. Inr ()),
       openshiftCreateRoute = (\<lambda>h ns rt. Inr (rt\<lparr>routeHost := Some ''web.apps.example''\<rparr>)),
       kubernetesCreateIngress = (\<lambda>h ns ing. Inr ()) \<rparr>"

text \<open>A cluster that cannot be reached: the Pod is not created.\<close>

definition refusingBridge :: bridge where
  "refusingBridge =
     quietBridge\<lparr>kubernetesCreatePod := (\<lambda>h ns pod. Inl (JsError ''connection refused''))\<rparr>"

text \<open>A cluster that creates the Pod and refuses every Service.\<close>

definition quotaBridge :: bridge where
  "quotaBridge =
     quietBridge\<lparr>kubernetesCreateService := (\<lambda>h ns svc. Inl (JsError ''quota exceeded''))\<rparr>"

text \<open>The YAML codec of the examples: whatever the text, the document is \<open>webPod\<close>.\<close>

definition parseWeb :: "string \<Rightarrow> V1Pod" where
  "parseWeb text = webPod"

text \<open>
  The component mounted on that cluster for the pod \<open>web\<close>, and the manifest its form
  then holds; the same after a click on Deploy, after the interval has fired once and
  after it has fired twice.
\<close>

definition webForm :: state where
  "webForm = mounted quietBridge parseWeb ''web'' ''podman'' ''pod''"


definition deployedWeb :: state where
  "deployedWeb = handleEvent quietBridge id ClickDeploy webForm"

definition polledOnce :: state where
  "polledOnce = handleEvent quietBridge id (IntervalFires 0) deployedWeb"

definition polledTwice :: state where
  "polledTwice = handleEvent quietBridge id (IntervalFires 0) polledOnce"

text \<open>
  A run of the component on that cluster for the pod \<open>web\<close> in which the user does not
  wait: Deploy is clicked while the cluster is still listing its namespaces (the
  \<open>await\<close> of line 80), and \<open>onMount\<close> goes through its last three stretches after
  the click. \<open>listingNamespaces\<close> is the state at the click.
\<close>

definition earlyClick :: "action list" where
  "earlyClick = replicate 4 OnMountResumes @ [Event ClickDeploy] @ replicate 3 OnMountResumes"

definition listingNamespaces :: state where
  "listingNamespaces =
     snd (runComponent quietBridge id parseWeb ''web'' ''podman'' ''pod''
            (replicate 4 OnMountResumes) created)"

section \<open>The planner: one service for each exposed port\<close>

lemma fold_planPort:
  "fold (planPort w nm ns) ps acc =
     (fst acc @ map (makeService nm ns) (filter (\<lambda>p. truthyNumber (hostPort p)) ps),
      snd acc @ (if w then map (makeRoute nm ns) (filter (\<lambda>p. truthyNumber (hostPort p)) ps)
                 else []))"
  by (induction ps arbitrary: acc) (auto simp: planPort_def)

lemma fold_planContainer:
  "fold (planContainer w nm ns) cs acc =
     (fst acc @ map (makeService nm ns)
                  (filter (\<lambda>p. truthyNumber (hostPort p)) (concat (map containerPorts cs))),
      snd acc @ (if w then map (makeRoute nm ns)
                  (filter (\<lambda>p. truthyNumber (hostPort p)) (concat (map containerPorts cs)))
                 else []))"
  by (induction cs arbitrary: acc) (auto simp: planContainer_def fold_planPort)

lemma planServices_eq:
  "planServices u w ns pod =
     (if u then (map (makeService (podName pod) ns) (exposedPorts pod),
                 if w then map (makeRoute (podName pod) ns) (exposedPorts pod) else [])
      else ([], []))"
  by (simp add: planServices_def fold_planContainer exposedPorts_def podPorts_def)

lemma exposed_hostPort:
  "p \<in> set (exposedPorts pod) \<Longrightarrow> \<exists>h. hostPort p = Some h \<and> h \<noteq> 0"
  by (cases "hostPort p") (auto simp: exposedPorts_def)

text \<open>
  C3. With services in use, the planner makes one service for each port entry with a
  non-empty \<open>hostPort\<close>, in order, and none for the other entries: the service is named
  pod name, dash, host port in decimal; its one port entry has the host port as \<open>port\<close>,
  the entry's protocol or \<open>TCP\<close>, and the entry's \<open>containerPort\<close> as \<open>targetPort\<close>; its
  selector binds \<open>app\<close> to the pod name. So N entries with distinct host ports give N
  services. With services not in use nothing is planned. The pod name is written as the
  template literal writes it: the name itself when there is one (\<open>deployToKube\<close> plans
  for no other manifest, line 176).
\<close>

theorem planServices_one_service_per_host_port:
  "fst (planServices False w ns pod) = []
    \<and> snd (planServices False w ns pod) = []
    \<and> list_all2
        (\<lambda>p svc. \<exists>h. hostPort p = Some h \<and> h \<noteq> 0
           \<and> serviceKind svc = ''Service''
           \<and> name (serviceMetadata svc)
               = Some (templateString (podName pod) @ ''-'' @ numberToString h)
           \<and> servicePorts svc =
               [\<lparr> servicePortName = templateString (podName pod) @ ''-'' @ numberToString h,
                  port = Some h,
                  servicePortProtocol = (case protocol p of None \<Rightarrow> ''TCP'' | Some pr \<Rightarrow> pr),
                  targetPort = containerPort p \<rparr>]
           \<and> selectorApp svc = podName pod)
        (exposedPorts pod) (fst (planServices True w ns pod))
    \<and> (\<forall>nm. podName pod = Some nm \<longrightarrow> templateString (podName pod) = nm)
    \<and> (distinct (map hostPort (exposedPorts pod)) \<longrightarrow>
         length (fst (planServices True w ns pod)) = card (hostPort ` set (exposedPorts pod)))"
proof -
  have "list_all2
        (\<lambda>p svc. \<exists>h. hostPort p = Some h \<and> h \<noteq> 0
           \<and> serviceKind svc = ''Service''
           \<and> name (serviceMetadata svc)
               = Some (templateString (podName pod) @ ''-'' @ numberToString h)
           \<and> servicePorts svc =
               [\<lparr> servicePortName = templateString (podName pod) @ ''-'' @ numberToString h,
                  port = Some h,
                  servicePortProtocol = (case protocol p of None \<Rightarrow> ''TCP'' | Some pr \<Rightarrow> pr),
                  targetPort = containerPort p \<rparr>]
           \<and> selectorApp svc = podName pod)
        (exposedPorts pod) (map (makeService (podName pod) ns) (exposedPorts pod))"
    by (auto simp: list_all2_map2 list_all2_same makeService_def templateNumber_def Let_def
          dest!: exposed_hostPort)
  moreover have "distinct (map hostPort (exposedPorts pod)) \<Longrightarrow>
      length (exposedPorts pod) = card (hostPort ` set (exposedPorts pod))"
    using distinct_card [of "map hostPort (exposedPorts pod)"] by simp
  ultimately show ?thesis
    by (simp add: planServices_eq templateString_def)
qed

theorem planServices_witness:
  "podName webPod = Some ''web''
   \<and> distinct (map hostPort (exposedPorts webPod))
   \<and> map serviceName (fst (planServices True False (Some ''default'') webPod))
       = [Some ''web-8080'', Some ''web-9090'']
   \<and> map (map targetPort \<circ> servicePorts) (fst (planServices True False (Some ''default'') webPod))
       = [[Some 80], [Some 3000]]
   \<and> length (fst (planServices True False (Some ''default'') webPod)) = 2"
  using planServices_one_service_per_host_port [of False "Some ''default''" webPod]
  by (simp add: webPod_def podName_def exposedPorts_def podPorts_def podContainers_def
      containerPorts_def planServices_eq serviceName_def makeService_def templateString_def
      templateNumber_def numberToString_def natToString.simps digitChar_def)

section \<open>The sanitizer, and planning after it\<close>

lemma sanitize_ports:
  "podPorts (sanitize True pod) = map sanitizePort (podPorts pod)"
  by (auto simp: sanitize_def removeVolumes_def removeHostPorts_def podPorts_def
      podContainers_def containerPorts_def sanitizeContainer_def Let_def map_concat comp_def
      split: option.splits intro!: arg_cong [where f = concat])

lemma sanitize_volumes: "podVolumes (sanitize u pod) = None"
  by (auto simp: sanitize_def removeVolumes_def removeHostPorts_def podVolumes_def Let_def
      split: option.splits)

lemma sanitize_containers:
  "podContainers (sanitize True pod) = map sanitizeContainer (podContainers pod)"
  by (auto simp: sanitize_def removeVolumes_def removeHostPorts_def
      podContainers_def Let_def split: option.splits)

lemma exposed_sanitize: "exposedPorts (sanitize True pod) = []"
  by (simp add: exposedPorts_def sanitize_ports filter_map comp_def sanitizePort_def)

text \<open>
  C4. The sanitizer leaves no \<open>spec.volumes\<close>; with services in use it leaves no
  \<open>volumeMounts\<close> on any container and no \<open>hostPort\<close> on any port entry. The planner
  run on the sanitized manifest plans nothing, so whenever the manifest has a port
  entry with a non-empty \<open>hostPort\<close>, planning before and after sanitizing differ.
\<close>

theorem sanitize_then_plan_yields_nothing:
  "podVolumes (sanitize u pod) = None
   \<and> list_all (\<lambda>c. volumeMounts c = None) (podContainers (sanitize True pod))
   \<and> list_all (\<lambda>p. hostPort p = None) (podPorts (sanitize True pod))
   \<and> planServices True w ns (sanitize True pod) = ([], [])
   \<and> (exposedPorts pod \<noteq> [] \<longrightarrow>
        fst (planServices True w ns pod) \<noteq> fst (planServices True w ns (sanitize True pod)))"
  by (simp add: sanitize_volumes sanitize_containers sanitize_ports planServices_eq
      exposed_sanitize list_all_iff sanitizeContainer_def sanitizePort_def)

theorem sanitize_then_plan_witness:
  "exposedPorts webPod \<noteq> []
   \<and> length (fst (planServices True False (Some ''default'') webPod)) = 2
   \<and> fst (planServices True False (Some ''default'') (sanitize True webPod)) = []
   \<and> podVolumes webPod = Some [''data'']
   \<and> podVolumes (sanitize True webPod) = None"
  using sanitize_then_plan_yields_nothing [of True webPod False "Some ''default''"]
  by (simp add: webPod_def exposedPorts_def podPorts_def podContainers_def containerPorts_def
      planServices_eq podVolumes_def)

section \<open>deployToKube: the calls it makes\<close>

lemma issue_append:
  "issue br h (xs @ ys) =
     (if snd (issue br h xs) then issue br h xs else issue br (fst (issue br h xs)) ys)"
  by (induction xs arbitrary: h) auto

lemma issue_creationPlan:
  "issue br h (creationPlan ns pod svcs rts ings) =
     (let r1 = issue br h [KubernetesCreatePod ns pod] in
      if snd r1 then r1
      else let r2 = issue br (fst r1) (map (KubernetesCreateService ns) svcs) in
        if snd r2 then r2
        else let r3 = issue br (fst r2) (map (OpenshiftCreateRoute ns) rts) in
          if snd r3 then r3
          else issue br (fst r3) (map (KubernetesCreateIngress ns) ings))"
proof -
  have "creationPlan ns pod svcs rts ings =
      [KubernetesCreatePod ns pod] @ (map (KubernetesCreateService ns) svcs
        @ (map (OpenshiftCreateRoute ns) rts @ map (KubernetesCreateIngress ns) ings))"
    by (simp add: creationPlan_def)
  then show ?thesis
    by (simp only: issue_append Let_def)
qed

declare issue.simps [simp del]

lemma recordCall_simps [simp]:
  "calls (recordCall c s) = calls s @ [c]"
  "currentNamespace (recordCall c s) = currentNamespace s"
  "heap (recordCall c s) = heap s"
  "bodyPod (recordCall c s) = bodyPod s"
  "timers (recordCall c s) = timers s"
  "updatePodInterval (recordCall c s) = updatePodInterval s"
  "nextTimer (recordCall c s) = nextTimer s"
  "deployStarted (recordCall c s) = deployStarted s"
  "deployFinished (recordCall c s) = deployFinished s"
  "deployError (recordCall c s) = deployError s"
  "deployWarning (recordCall c s) = deployWarning s"
  "createdPod (recordCall c s) = createdPod s"
  by (simp_all add: recordCall_def)

lemma trace_simps [simp]:
  "trace (Inl (e, s)) = (calls s, True)"
  "trace (Inr s) = (calls s, False)"
  by (simp_all add: trace_def)

lemma createServices_trace:
  "trace (createServices br svcs s) =
     issue br (calls s) (map (KubernetesCreateService (currentNamespace s)) svcs)"
  by (induction svcs arbitrary: s)
     (auto simp: issue.simps rejected_def Let_def split: sum.split)

lemma createRoutes_trace:
  "trace (createRoutes br rts s) =
     issue br (calls s) (map (OpenshiftCreateRoute (currentNamespace s)) rts)"
  by (induction rts arbitrary: s)
     (auto simp: issue.simps rejected_def Let_def split: sum.split)

lemma createIngresses_trace:
  "trace (createIngresses br ings s) =
     issue br (calls s) (map (KubernetesCreateIngress (currentNamespace s)) ings)"
  by (induction ings arbitrary: s)
     (auto simp: issue.simps rejected_def Let_def split: sum.split)

lemma untracked_recordCall [simp]: "untracked (recordCall c s) = untracked s"
  by (simp add: untracked_def recordCall_def)

lemma untracked_updates [simp]:
  "untracked (s\<lparr>createdRoutes := rs\<rparr>) = untracked s"
  "untracked (s\<lparr>createdPod := cp\<rparr>) = untracked s"
  "untracked (s\<lparr>calls := cs\<rparr>) = untracked s"
  by (simp_all add: untracked_def)

lemma untracked_fields [simp]:
  "heap (untracked s) = heap s"
  "bodyPod (untracked s) = bodyPod s"
  "timers (untracked s) = timers s"
  "updatePodInterval (untracked s) = updatePodInterval s"
  "nextTimer (untracked s) = nextTimer s"
  "deployStarted (untracked s) = deployStarted s"
  "deployFinished (untracked s) = deployFinished s"
  "deployError (untracked s) = deployError s"
  "deployWarning (untracked s) = deployWarning s"
  "currentNamespace (untracked s) = currentNamespace s"
  by (simp_all add: untracked_def)

lemma untracked_eqD:
  assumes "untracked s' = untracked s"
  shows "heap s' = heap s" "bodyPod s' = bodyPod s" "timers s' = timers s"
    "updatePodInterval s' = updatePodInterval s" "nextTimer s' = nextTimer s"
    "deployStarted s' = deployStarted s" "deployFinished s' = deployFinished s"
    "deployError s' = deployError s" "deployWarning s' = deployWarning s"
    "currentNamespace s' = currentNamespace s"
  using assms untracked_fields by metis+

lemma createServices_untracked:
  "createServices br svcs s = Inr s' \<Longrightarrow> untracked s' = untracked s"
  "createServices br svcs s = Inl (e, s') \<Longrightarrow> untracked s' = untracked s"
  by (induction svcs arbitrary: s) (auto simp: Let_def split: sum.splits)

lemma createRoutes_untracked:
  "createRoutes br rts s = Inr s' \<Longrightarrow> untracked s' = untracked s"
  "createRoutes br rts s = Inl (e, s') \<Longrightarrow> untracked s' = untracked s"
  by (induction rts arbitrary: s) (auto simp: Let_def split: sum.splits)

lemma createIngresses_untracked:
  "createIngresses br ings s = Inr s' \<Longrightarrow> untracked s' = untracked s"
  "createIngresses br ings s = Inl (e, s') \<Longrightarrow> untracked s' = untracked s"
  by (induction ings arbitrary: s) (auto simp: Let_def split: sum.splits)

lemma store_simps [simp]:
  "calls (store a p s) = calls s"
  "currentNamespace (store a p s) = currentNamespace s"
  "heap (store a p s) = (heap s)(a \<mapsto> p)"
  "bodyPod (store a p s) = bodyPod s"
  "timers (store a p s) = timers s"
  "updatePodInterval (store a p s) = updatePodInterval s"
  "nextTimer (store a p s) = nextTimer s"
  "deployStarted (store a p s) = deployStarted s"
  "deployFinished (store a p s) = deployFinished s"
  "deployError (store a p s) = deployError s"
  "deployWarning (store a p s) = deployWarning s"
  "createdPod (store a p s) = createdPod s"
  "deployUsingServices (store a p s) = deployUsingServices s"
  "deployUsingRoutes (store a p s) = deployUsingRoutes s"
  "deployUsingRestrictedSecurityContext (store a p s) = deployUsingRestrictedSecurityContext s"
  "createIngress (store a p s) = createIngress s"
  "openshiftRouteGroupSupported (store a p s) = openshiftRouteGroupSupported s"
  by (simp_all add: store_def)

lemma store_store [simp]: "store a q (store a p s) = store a q s"
  by (simp add: store_def)

lemma untracked_setInterval [simp]: "untracked (setInterval s) = setInterval (untracked s)"
  by (simp add: untracked_def setInterval_def)

lemma calls_setInterval [simp]: "calls (setInterval s) = calls s"
  by (simp add: setInterval_def)

lemma createServices_Inr:
  "createServices br svcs s = Inr s' \<Longrightarrow>
   issue br (calls s) (map (KubernetesCreateService (currentNamespace s)) svcs) = (calls s', False)"
  using createServices_trace [of br svcs s] by simp

lemma createServices_Inl:
  "createServices br svcs s = Inl (e, s') \<Longrightarrow>
   issue br (calls s) (map (KubernetesCreateService (currentNamespace s)) svcs) = (calls s', True)"
  using createServices_trace [of br svcs s] by simp

lemma createRoutes_Inr:
  "createRoutes br rts s = Inr s' \<Longrightarrow>
   issue br (calls s) (map (OpenshiftCreateRoute (currentNamespace s)) rts) = (calls s', False)"
  using createRoutes_trace [of br rts s] by simp

lemma createRoutes_Inl:
  "createRoutes br rts s = Inl (e, s') \<Longrightarrow>
   issue br (calls s) (map (OpenshiftCreateRoute (currentNamespace s)) rts) = (calls s', True)"
  using createRoutes_trace [of br rts s] by simp

lemma createIngresses_Inr:
  "createIngresses br ings s = Inr s' \<Longrightarrow>
   issue br (calls s) (map (KubernetesCreateIngress (currentNamespace s)) ings) = (calls s', False)"
  using createIngresses_trace [of br ings s] by simp

lemma createIngresses_Inl:
  "createIngresses br ings s = Inl (e, s') \<Longrightarrow>
   issue br (calls s) (map (KubernetesCreateIngress (currentNamespace s)) ings) = (calls s', True)"
  using createIngresses_trace [of br ings s] by simp

lemma createPod_cases:
  "createPod br pod s = Inl (e, s') \<Longrightarrow>
     issue br (calls s) [KubernetesCreatePod (currentNamespace s) pod] = (calls s', True)
     \<and> untracked s' = untracked s"
  "createPod br pod s = Inr s' \<Longrightarrow>
     issue br (calls s) [KubernetesCreatePod (currentNamespace s) pod] = (calls s', False)
     \<and> untracked s' = untracked s"
  by (auto simp: createPod_def issue.simps rejected_def Let_def split: sum.splits)

lemma tryBlock_Inl:
  assumes "tryBlock br ens a pod svcs rts ings props s = Inl (e, s')"
  shows "issue br (calls s)
           (creationPlan (currentNamespace s) (sanitizedPod ens s pod) svcs rts ings)
         = (calls s', True)"
    and "untracked s' = untracked (store a (sanitizedPod ens s pod) s)"
proof -
  let ?sent = "sanitizedPod ens s pod"
  let ?s1 = "store a ?sent s"
  let ?ns = "currentNamespace s"
  let ?P = "[KubernetesCreatePod ?ns ?sent]"
  let ?S = "map (KubernetesCreateService ?ns) svcs"
  let ?R = "map (OpenshiftCreateRoute ?ns) rts"
  let ?I = "map (KubernetesCreateIngress ?ns) ings"
  have plan: "creationPlan ?ns ?sent svcs rts ings = ?P @ ?S @ ?R @ ?I"
    by (simp add: creationPlan_def)
  show "issue br (calls s) (creationPlan ?ns ?sent svcs rts ings) = (calls s', True)"
    and "untracked s' = untracked ?s1"
  proof -
    consider (pod) "createPod br ?sent ?s1 = Inl (e, s')"
      | (svc) s2 where "createPod br ?sent ?s1 = Inr s2" "createServices br svcs s2 = Inl (e, s')"
      | (rt) s2 s3 where "createPod br ?sent ?s1 = Inr s2" "createServices br svcs s2 = Inr s3"
          "createRoutes br rts s3 = Inl (e, s')"
      | (ing) s2 s3 s4 where "createPod br ?sent ?s1 = Inr s2" "createServices br svcs s2 = Inr s3"
          "createRoutes br rts s3 = Inr s4" "createIngresses br ings s4 = Inl (e, s')"
      using assms by (auto simp: tryBlock_def Let_def split: sum.splits)
    then have "issue br (calls s) (creationPlan ?ns ?sent svcs rts ings) = (calls s', True)
        \<and> untracked s' = untracked ?s1"
    proof cases
      case pod
      from createPod_cases(1) [OF pod] show ?thesis
        by (simp add: issue_creationPlan)
    next
      case svc
      from createPod_cases(2) [OF svc(1)] createServices_Inl [OF svc(2)]
        createServices_untracked(2) [OF svc(2)]
        untracked_eqD(10) [of s2 ?s1]
      show ?thesis
        by (simp add: issue_creationPlan)
    next
      case rt
      from createPod_cases(2) [OF rt(1)] createServices_Inr [OF rt(2)]
        createServices_untracked(1) [OF rt(2)] createRoutes_Inl [OF rt(3)]
        createRoutes_untracked(2) [OF rt(3)]
        untracked_eqD(10) [of s2 ?s1] untracked_eqD(10) [of s3 s2]
      show ?thesis
        by (simp add: issue_creationPlan)
    next
      case ing
      from createPod_cases(2) [OF ing(1)] createServices_Inr [OF ing(2)]
        createServices_untracked(1) [OF ing(2)] createRoutes_Inr [OF ing(3)]
        createRoutes_untracked(1) [OF ing(3)] createIngresses_Inl [OF ing(4)]
        createIngresses_untracked(2) [OF ing(4)]
        untracked_eqD(10) [of s2 ?s1] untracked_eqD(10) [of s3 s2] untracked_eqD(10) [of s4 s3]
      show ?thesis
        by (simp add: issue_creationPlan)
    qed
    then show "issue br (calls s) (creationPlan ?ns ?sent svcs rts ings) = (calls s', True)"
      and "untracked s' = untracked ?s1" by simp_all
  qed
qed

lemma tryBlock_Inr:
  assumes "tryBlock br ens a pod svcs rts ings props s = Inr s'"
  shows "issue br (calls s)
           (creationPlan (currentNamespace s) (sanitizedPod ens s pod) svcs rts ings)
         = (butlast (calls s'), False)"
    and "calls s' = butlast (calls s') @ [TelemetryTrack ''deployToKube'' props]"
    and "untracked s' = setInterval (untracked (store a (sanitizedPod ens s pod) s))"
proof -
  let ?sent = "sanitizedPod ens s pod"
  let ?s1 = "store a ?sent s"
  let ?ns = "currentNamespace s"
  let ?P = "[KubernetesCreatePod ?ns ?sent]"
  let ?S = "map (KubernetesCreateService ?ns) svcs"
  let ?R = "map (OpenshiftCreateRoute ?ns) rts"
  let ?I = "map (KubernetesCreateIngress ?ns) ings"
  have plan: "creationPlan ?ns ?sent svcs rts ings = ?P @ ?S @ ?R @ ?I"
    by (simp add: creationPlan_def)
  obtain s2 s3 s4 s5 where steps: "createPod br ?sent ?s1 = Inr s2"
      "createServices br svcs s2 = Inr s3" "createRoutes br rts s3 = Inr s4"
      "createIngresses br ings s4 = Inr s5" "s' = finishAttempt props s5"
    using assms by (auto simp: tryBlock_def Let_def split: sum.splits)
  from createPod_cases(2) [OF steps(1)] createServices_Inr [OF steps(2)]
    createServices_untracked(1) [OF steps(2)] createRoutes_Inr [OF steps(3)]
    createRoutes_untracked(1) [OF steps(3)] createIngresses_Inr [OF steps(4)]
    createIngresses_untracked(1) [OF steps(4)]
    untracked_eqD(10) [of s2 ?s1] untracked_eqD(10) [of s3 s2] untracked_eqD(10) [of s4 s3]
  have "issue br (calls s) (creationPlan ?ns ?sent svcs rts ings) = (calls s5, False)
      \<and> untracked s5 = untracked ?s1"
    by (simp add: issue_creationPlan)
  then show "issue br (calls s) (creationPlan ?ns ?sent svcs rts ings) = (butlast (calls s'), False)"
    and "calls s' = butlast (calls s') @ [TelemetryTrack ''deployToKube'' props]"
    and "untracked s' = setInterval (untracked ?s1)"
    using steps(5) by (simp_all add: finishAttempt_def)
qed

lemma issue_prefix:
  "\<exists>k\<le>length cs. fst (issue br h cs) = h @ take k cs
     \<and> (snd (issue br h cs) \<longrightarrow> 0 < k)
     \<and> (\<not> snd (issue br h cs) \<longrightarrow> k = length cs)
     \<and> (\<forall>i<k. rejected br (h @ take i cs) (cs ! i) \<longleftrightarrow> snd (issue br h cs) \<and> Suc i = k)"
proof (induction cs arbitrary: h)
  case Nil
  then show ?case by (simp add: issue.simps)
next
  case (Cons c cs)
  show ?case
  proof (cases "rejected br h c")
    case True
    then have "fst (issue br h (c # cs)) = h @ take 1 (c # cs)" "snd (issue br h (c # cs))"
      by (simp_all add: issue.simps)
    with True show ?thesis
      by (intro exI [of _ 1]) simp
  next
    case False
    from Cons [of "h @ [c]"] obtain k where k: "k \<le> length cs"
      "fst (issue br (h @ [c]) cs) = (h @ [c]) @ take k cs"
      "snd (issue br (h @ [c]) cs) \<longrightarrow> 0 < k"
      "\<not> snd (issue br (h @ [c]) cs) \<longrightarrow> k = length cs"
      "\<forall>i<k. rejected br ((h @ [c]) @ take i cs) (cs ! i)
          \<longleftrightarrow> snd (issue br (h @ [c]) cs) \<and> Suc i = k"
      by blast
    have eq: "issue br h (c # cs) = issue br (h @ [c]) cs"
      using False by (simp add: issue.simps)
    have "\<forall>i<Suc k. rejected br (h @ take i (c # cs)) ((c # cs) ! i)
          \<longleftrightarrow> snd (issue br h (c # cs)) \<and> Suc i = Suc k"
    proof (intro allI impI)
      fix i assume "i < Suc k"
      show "rejected br (h @ take i (c # cs)) ((c # cs) ! i)
          \<longleftrightarrow> snd (issue br h (c # cs)) \<and> Suc i = Suc k"
      proof (cases i)
        case 0
        then show ?thesis using False k(3) eq by auto
      next
        case (Suc j)
        with \<open>i < Suc k\<close> have "j < k" by simp
        with k(5) Suc eq show ?thesis by simp
      qed
    qed
    with k eq show ?thesis
      by (intro exI [of _ "Suc k"]) simp
  qed
qed

lemma clearInterval_simps [simp]:
  "calls (clearInterval h s) = calls s"
  "heap (clearInterval h s) = heap s"
  "bodyPod (clearInterval h s) = bodyPod s"
  "currentNamespace (clearInterval h s) = currentNamespace s"
  "timers (clearInterval h s) = timers s - set_option h"
  "updatePodInterval (clearInterval h s) = updatePodInterval s"
  "nextTimer (clearInterval h s) = nextTimer s"
  "deployStarted (clearInterval h s) = deployStarted s"
  "deployFinished (clearInterval h s) = deployFinished s"
  "deployError (clearInterval h s) = deployError s"
  "deployWarning (clearInterval h s) = deployWarning s"
  "createdPod (clearInterval h s) = createdPod s"
  "deployUsingServices (clearInterval h s) = deployUsingServices s"
  "deployUsingRoutes (clearInterval h s) = deployUsingRoutes s"
  "deployUsingRestrictedSecurityContext (clearInterval h s) = deployUsingRestrictedSecurityContext s"
  "createIngress (clearInterval h s) = createIngress s"
  "ingressPort (clearInterval h s) = ingressPort s"
  "openshiftRouteGroupSupported (clearInterval h s) = openshiftRouteGroupSupported s"
  by (simp_all add: clearInterval_def split: option.splits)

lemma resetAttempt_simps [simp]:
  "calls (resetAttempt s) = calls s"
  "heap (resetAttempt s) = heap s"
  "bodyPod (resetAttempt s) = bodyPod s"
  "currentNamespace (resetAttempt s) = currentNamespace s"
  "timers (resetAttempt s) = timers s - set_option (updatePodInterval s)"
  "updatePodInterval (resetAttempt s) = updatePodInterval s"
  "nextTimer (resetAttempt s) = nextTimer s"
  "deployStarted (resetAttempt s) = True"
  "deployFinished (resetAttempt s) = False"
  "deployError (resetAttempt s) = []"
  "deployWarning (resetAttempt s) = []"
  "createdPod (resetAttempt s) = None"
  "deployUsingServices (resetAttempt s) = deployUsingServices s"
  "deployUsingRoutes (resetAttempt s) = deployUsingRoutes s"
  "deployUsingRestrictedSecurityContext (resetAttempt s) = deployUsingRestrictedSecurityContext s"
  "createIngress (resetAttempt s) = createIngress s"
  "ingressPort (resetAttempt s) = ingressPort s"
  "openshiftRouteGroupSupported (resetAttempt s) = openshiftRouteGroupSupported s"
  by (simp_all add: resetAttempt_def)

lemma sanitizedPod_cong [simp]:
  "sanitizedPod ens (store a p s) = sanitizedPod ens s"
  "sanitizedPod ens (resetAttempt s) = sanitizedPod ens s"
  by (simp_all add: sanitizedPod_def fun_eq_iff)

lemma eventProperties_cong [simp]:
  "eventProperties (store a p s) = eventProperties s"
  "eventProperties (resetAttempt s) = eventProperties s"
  by (simp_all add: eventProperties_def)

text \<open>The three ways through \<open>deployToKube\<close> once the manifest has a name.\<close>

lemma deployToKube_warning:
  assumes "bodyPod s = Some a" "heap s a = Some pod" "truthyString (podName pod)"
    and "plannedIngress s pod = IngressWarning w"
  shows "deployToKube br ens s =
           (None, (resetAttempt s)\<lparr>deployWarning := w, deployStarted := False\<rparr>)"
  using assms
  by (simp add: deployToKube_def plannedIngress_def plannedServices_def Let_def)

lemma deployToKube_error:
  assumes "bodyPod s = Some a" "heap s a = Some pod" "truthyString (podName pod)"
    and "plannedIngress s pod = IngressError e"
  shows "deployToKube br ens s = (None, (resetAttempt s)\<lparr>deployError := e\<rparr>)"
  using assms
  by (simp add: deployToKube_def plannedIngress_def plannedServices_def Let_def)

lemma deployToKube_planned:
  assumes "bodyPod s = Some a" "heap s a = Some pod" "truthyString (podName pod)"
    and "plannedIngress s pod = IngressPlanned ings"
  shows "deployToKube br ens s =
           (None,
            case tryBlock br ens a (convertTimestamp pod) (plannedServices s pod)
                   (plannedRoutes s pod) ings (eventProperties s)
                   (store a (convertTimestamp pod) (resetAttempt s)) of
              Inr s2 \<Rightarrow> s2
            | Inl (err, s2) \<Rightarrow> catchBlock (Some a) (eventProperties s) err s2)"
  using assms
  by (simp add: deployToKube_def plannedIngress_def plannedServices_def plannedRoutes_def
      Let_def split: sum.splits)

lemmas model_defs =
  deployToKube_def resetAttempt_def clearInterval_def tryBlock_def catchBlock_def createPod_def
  finishAttempt_def setInterval_def recordCall_def store_def sanitizedPod_def eventProperties_def
  planIngress_def makeIngress_def serviceName_def servicePort_def
  planServices_eq exposedPorts_def podPorts_def podContainers_def containerPorts_def
  makeService_def makeRoute_def templateString_def templateNumber_def numberToString_def
  natToString.simps digitChar_def podName_def
  sanitize_def removeVolumes_def removeHostPorts_def sanitizeContainer_def sanitizePort_def
  convertTimestamp_def manifest_def Let_def

lemmas example_defs =
  formState_def ingressForm_def initialState_def quietBridge_def refusingBridge_def
  quotaBridge_def clusterPod_def webPod_def singlePod_def parseWeb_def

lemma deployToKube_calls:
  assumes "bodyPod s = Some a" "heap s a = Some pod" "truthyString (podName pod)"
    and "plannedIngress s pod = IngressPlanned ings"
  shows "\<exists>props. calls (snd (deployToKube br ens s)) =
           fst (issue br (calls s)
                  (creationPlan (currentNamespace s) (sanitizedPod ens s (convertTimestamp pod))
                     (plannedServices s pod) (plannedRoutes s pod) ings))
           @ [TelemetryTrack ''deployToKube'' props]"
proof (cases "tryBlock br ens a (convertTimestamp pod) (plannedServices s pod)
                   (plannedRoutes s pod) ings (eventProperties s)
                   (store a (convertTimestamp pod) (resetAttempt s))")
  case (Inl r)
  obtain err s2 where r: "r = (err, s2)" by (cases r)
  from tryBlock_Inl(1) [OF Inl [unfolded r]] show ?thesis
    by (simp add: deployToKube_planned [OF assms] Inl r catchBlock_def)
next
  case (Inr s2)
  from tryBlock_Inr(1,2) [OF Inr] show ?thesis
    by (simp add: deployToKube_planned [OF assms] Inr) metis
qed

lemma deployToKube_creation_calls:
  assumes "bodyPod s = Some a" "heap s a = Some pod" "truthyString (podName pod)"
    and "plannedIngress s pod = IngressPlanned ings"
  shows "\<exists>k props. 0 < k
      \<and> k \<le> length (creationPlan (currentNamespace s)
                      (sanitizedPod ens s (convertTimestamp pod))
                      (plannedServices s pod) (plannedRoutes s pod) ings)
      \<and> calls (snd (deployToKube br ens s))
          = calls s @ take k (creationPlan (currentNamespace s)
                      (sanitizedPod ens s (convertTimestamp pod))
                      (plannedServices s pod) (plannedRoutes s pod) ings)
              @ [TelemetryTrack ''deployToKube'' props]
      \<and> (\<forall>i<k. rejected br
                   (calls s @ take i (creationPlan (currentNamespace s)
                      (sanitizedPod ens s (convertTimestamp pod))
                      (plannedServices s pod) (plannedRoutes s pod) ings))
                   (creationPlan (currentNamespace s)
                      (sanitizedPod ens s (convertTimestamp pod))
                      (plannedServices s pod) (plannedRoutes s pod) ings ! i)
            \<longleftrightarrow> snd (issue br (calls s) (creationPlan (currentNamespace s)
                      (sanitizedPod ens s (convertTimestamp pod))
                      (plannedServices s pod) (plannedRoutes s pod) ings)) \<and> Suc i = k)
      \<and> (\<not> snd (issue br (calls s) (creationPlan (currentNamespace s)
                      (sanitizedPod ens s (convertTimestamp pod))
                      (plannedServices s pod) (plannedRoutes s pod) ings))
            \<longrightarrow> k = length (creationPlan (currentNamespace s)
                      (sanitizedPod ens s (convertTimestamp pod))
                      (plannedServices s pod) (plannedRoutes s pod) ings))"
proof -
  define plan where "plan = creationPlan (currentNamespace s)
                      (sanitizedPod ens s (convertTimestamp pod))
                      (plannedServices s pod) (plannedRoutes s pod) ings"
  obtain k where k: "k \<le> length plan" "fst (issue br (calls s) plan) = calls s @ take k plan"
      "snd (issue br (calls s) plan) \<longrightarrow> 0 < k"
      "\<not> snd (issue br (calls s) plan) \<longrightarrow> k = length plan"
      "\<forall>i<k. rejected br (calls s @ take i plan) (plan ! i)
          \<longleftrightarrow> snd (issue br (calls s) plan) \<and> Suc i = k"
    using issue_prefix [of plan br "calls s"] by blast
  have "0 < length plan" by (simp add: plan_def creationPlan_def)
  with k(3,4) have pos: "0 < k" by (cases "snd (issue br (calls s) plan)") auto
  obtain props where
    "calls (snd (deployToKube br ens s)) =
       fst (issue br (calls s) plan) @ [TelemetryTrack ''deployToKube'' props]"
    using deployToKube_calls [OF assms(1-4)] unfolding plan_def by blast
  with k(2) have c: "calls (snd (deployToKube br ens s))
      = calls s @ take k plan @ [TelemetryTrack ''deployToKube'' props]" by simp
  from pos k(1) c k(5) k(4) show ?thesis unfolding plan_def by blast
qed

lemma planned_service_shape:
  assumes "svc \<in> set (plannedServices s pod)"
  shows "serviceName svc
           = Some (templateString (podName pod) @ ''-'' @ templateNumber (servicePort svc))"
    and "\<exists>sp. servicePorts svc = [sp]"
    and "truthyNumber (servicePort svc)"
  using assms
  by (auto simp: plannedServices_def planServices_eq makeService_def serviceName_def
      servicePort_def exposedPorts_def Let_def split: if_splits)

lemma plannedIngress_none:
  "\<not> createIngress s \<Longrightarrow> plannedIngress s pod = IngressPlanned []"
  by (simp add: plannedIngress_def planIngress_def)

lemma plannedIngress_empty:
  "createIngress s \<Longrightarrow> plannedServices s pod = [] \<Longrightarrow>
   plannedIngress s pod = IngressWarning noServiceWarning"
  by (simp add: plannedIngress_def planIngress_def)

lemma plannedIngress_single:
  "createIngress s \<Longrightarrow> plannedServices s pod = [svc] \<Longrightarrow>
   plannedIngress s pod =
     IngressPlanned
       [makeIngress (podName pod) (currentNamespace s) (serviceName svc) (servicePort svc)]"
  by (simp add: plannedIngress_def planIngress_def)

lemma plannedIngress_unchosen:
  "createIngress s \<Longrightarrow> 1 < length (plannedServices s pod) \<Longrightarrow>
   \<not> truthyNumber (ingressPort s) \<Longrightarrow> plannedIngress s pod = IngressWarning noPortWarning"
  by (cases "plannedServices s pod" rule: list.exhaust [case_names Nil Cons])
     (auto simp: plannedIngress_def planIngress_def split: list.splits)

lemma plannedIngress_unmatched:
  "createIngress s \<Longrightarrow> 1 < length (plannedServices s pod) \<Longrightarrow>
   truthyNumber (ingressPort s) \<Longrightarrow>
   \<forall>svc\<in>set (plannedServices s pod). servicePort svc \<noteq> ingressPort s \<Longrightarrow>
   plannedIngress s pod = IngressError noMatchError"
  by (auto simp: plannedIngress_def planIngress_def find_None_iff [THEN iffD2]
      split: list.splits option.splits dest!: find_Some_iff [THEN iffD1])

lemma plannedIngress_matched:
  assumes "createIngress s" "1 < length (plannedServices s pod)" "truthyNumber (ingressPort s)"
    and "svc \<in> set (plannedServices s pod)" "servicePort svc = ingressPort s"
  shows "plannedIngress s pod =
     IngressPlanned
       [makeIngress (podName pod) (currentNamespace s) (serviceName svc) (servicePort svc)]"
proof -
  let ?svcs = "plannedServices s pod"
  obtain m where m: "find (\<lambda>x. servicePort x = ingressPort s) ?svcs = Some m"
    using assms(4,5) by (cases "find (\<lambda>x. servicePort x = ingressPort s) ?svcs")
      (auto simp: find_None_iff)
  then have "m \<in> set ?svcs" "servicePort m = ingressPort s"
    by (auto simp: find_Some_iff)
  with planned_service_shape(1) [of m s pod] planned_service_shape(1) [OF assms(4)] assms(5)
  have "serviceName m = serviceName svc" "servicePort m = servicePort svc" by simp_all
  with m assms(1-3) show ?thesis
    by (auto simp: plannedIngress_def planIngress_def split: list.splits)
qed

lemma rejected_issue:
  assumes "i < length cs" "rejected br (h @ take i cs) (cs ! i)"
  shows "snd (issue br h cs)"
proof (rule ccontr)
  assume n: "\<not> snd (issue br h cs)"
  from issue_prefix [of cs br h] obtain k where "k \<le> length cs"
      "\<not> snd (issue br h cs) \<longrightarrow> k = length cs"
      "\<forall>i<k. rejected br (h @ take i cs) (cs ! i) \<longleftrightarrow> snd (issue br h cs) \<and> Suc i = k"
    by blast
  with n assms show False by auto
qed

lemma catchBlock_simps [simp]:
  "deployStarted (catchBlock p props err s) = False"
  "deployFinished (catchBlock p props err s) = False"
  "deployError (catchBlock p props err s) = message err"
  "bodyPod (catchBlock p props err s) = p"
  "heap (catchBlock p props err s) = heap s"
  "timers (catchBlock p props err s) = timers s"
  "updatePodInterval (catchBlock p props err s) = updatePodInterval s"
  "nextTimer (catchBlock p props err s) = nextTimer s"
  by (simp_all add: catchBlock_def)

lemma deployToKube_rejected:
  assumes "bodyPod s = Some a" "heap s a = Some pod" "truthyString (podName pod)"
    and "plannedIngress s pod = IngressPlanned ings"
    and "snd (issue br (calls s)
                (creationPlan (currentNamespace s) (sanitizedPod ens s (convertTimestamp pod))
                   (plannedServices s pod) (plannedRoutes s pod) ings))"
  shows "\<exists>err s2. snd (deployToKube br ens s) = catchBlock (Some a) (eventProperties s) err s2
      \<and> untracked s2
          = untracked (store a (sanitizedPod ens s (convertTimestamp pod)) (resetAttempt s))"
proof (cases "tryBlock br ens a (convertTimestamp pod) (plannedServices s pod)
                   (plannedRoutes s pod) ings (eventProperties s)
                   (store a (convertTimestamp pod) (resetAttempt s))")
  case (Inl r)
  obtain err s2 where r: "r = (err, s2)" by (cases r)
  from tryBlock_Inl(2) [OF Inl [unfolded r]] show ?thesis
    by (auto simp: deployToKube_planned [OF assms(1-4)] Inl r)
next
  case (Inr s2)
  from tryBlock_Inr(1) [OF Inr] assms(5) show ?thesis by simp
qed

lemma deployToKube_accepted:
  assumes "bodyPod s = Some a" "heap s a = Some pod" "truthyString (podName pod)"
    and "plannedIngress s pod = IngressPlanned ings"
    and "\<not> snd (issue br (calls s)
                (creationPlan (currentNamespace s) (sanitizedPod ens s (convertTimestamp pod))
                   (plannedServices s pod) (plannedRoutes s pod) ings))"
  shows "untracked (snd (deployToKube br ens s))
      = setInterval
          (untracked (store a (sanitizedPod ens s (convertTimestamp pod)) (resetAttempt s)))"
proof (cases "tryBlock br ens a (convertTimestamp pod) (plannedServices s pod)
                   (plannedRoutes s pod) ings (eventProperties s)
                   (store a (convertTimestamp pod) (resetAttempt s))")
  case (Inl r)
  obtain err s2 where r: "r = (err, s2)" by (cases r)
  from tryBlock_Inl(1) [OF Inl [unfolded r]] assms(5) show ?thesis by simp
next
  case (Inr s2)
  from tryBlock_Inr(3) [OF Inr] show ?thesis
    by (simp add: deployToKube_planned [OF assms(1-4)] Inr)
qed

lemma setInterval_simps [simp]:
  "heap (setInterval s) = heap s"
  "bodyPod (setInterval s) = bodyPod s"
  "timers (setInterval s) = insert (nextTimer s) (timers s)"
  "updatePodInterval (setInterval s) = Some (nextTimer s)"
  by (simp_all add: setInterval_def)

lemma deployToKube_cases [case_names early warning error rejected accepted]:
  obtains
    (early) "snd (deployToKube br ens s) = resetAttempt s"
  | (warning) w where
      "snd (deployToKube br ens s) = (resetAttempt s)\<lparr>deployWarning := w, deployStarted := False\<rparr>"
  | (error) e where "snd (deployToKube br ens s) = (resetAttempt s)\<lparr>deployError := e\<rparr>"
  | (rejected) a pod ings err s2 where
      "bodyPod s = Some a" "heap s a = Some pod" "truthyString (podName pod)"
      "plannedIngress s pod = IngressPlanned ings"
      "snd (deployToKube br ens s) = catchBlock (Some a) (eventProperties s) err s2"
      "untracked s2
         = untracked (store a (sanitizedPod ens s (convertTimestamp pod)) (resetAttempt s))"
  | (accepted) a pod ings where
      "bodyPod s = Some a" "heap s a = Some pod" "truthyString (podName pod)"
      "plannedIngress s pod = IngressPlanned ings"
      "untracked (snd (deployToKube br ens s))
         = setInterval
             (untracked (store a (sanitizedPod ens s (convertTimestamp pod)) (resetAttempt s)))"
proof (cases "bodyPod s")
  case None
  then have "snd (deployToKube br ens s) = resetAttempt s"
    by (simp add: deployToKube_def Let_def)
  then show ?thesis by (rule early)
next
  case (Some a)
  show ?thesis
  proof (cases "heap s a")
    case None
    with Some have "snd (deployToKube br ens s) = resetAttempt s"
      by (simp add: deployToKube_def Let_def)
    then show ?thesis by (rule early)
  next
    case (Some pod)
    note hp = this
    show ?thesis
    proof (cases "truthyString (podName pod)")
      case False
      with \<open>bodyPod s = Some a\<close> hp have "snd (deployToKube br ens s) = resetAttempt s"
        by (simp add: deployToKube_def Let_def)
      then show ?thesis by (rule early)
    next
      case True
      show ?thesis
      proof (cases "plannedIngress s pod")
        case (IngressWarning w)
        from deployToKube_warning [OF \<open>bodyPod s = Some a\<close> hp True IngressWarning]
        show ?thesis by (intro warning [of w]) simp
      next
        case (IngressError e)
        from deployToKube_error [OF \<open>bodyPod s = Some a\<close> hp True IngressError]
        show ?thesis by (intro error [of e]) simp
      next
        case (IngressPlanned ings)
        show ?thesis
        proof (cases "snd (issue br (calls s)
                (creationPlan (currentNamespace s) (sanitizedPod ens s (convertTimestamp pod))
                   (plannedServices s pod) (plannedRoutes s pod) ings))")
          case True
          from deployToKube_rejected [OF \<open>bodyPod s = Some a\<close> hp \<open>truthyString (podName pod)\<close>
              IngressPlanned True]
          obtain err s2 where
            "snd (deployToKube br ens s) = catchBlock (Some a) (eventProperties s) err s2"
            "untracked s2 = untracked (store a (sanitizedPod ens s (convertTimestamp pod))
                                         (resetAttempt s))"
            by blast
          then show ?thesis
            using rejected \<open>bodyPod s = Some a\<close> hp \<open>truthyString (podName pod)\<close> IngressPlanned
            by blast
        next
          case False
          from deployToKube_accepted [OF \<open>bodyPod s = Some a\<close> hp \<open>truthyString (podName pod)\<close>
              IngressPlanned False]
          show ?thesis
            using accepted \<open>bodyPod s = Some a\<close> hp \<open>truthyString (podName pod)\<close> IngressPlanned
            by blast
        qed
      qed
    qed
  qed
qed

text \<open>
  What the form holds after \<open>deployToKube\<close>: the manifest it held, or, once the \<open>try\<close>
  block was entered, the sanitized one, whether the creation calls were accepted or not.
\<close>

lemma manifest_frame [simp]:
  "manifest (resetAttempt s) = manifest s"
  "manifest (s\<lparr>deployWarning := w\<rparr>) = manifest s"
  "manifest (s\<lparr>deployStarted := b\<rparr>) = manifest s"
  "manifest (s\<lparr>deployError := e\<rparr>) = manifest s"
  by (simp_all add: manifest_def split: option.splits)

lemma deployToKube_manifest:
  "manifest (snd (deployToKube br ens s)) = manifest s
   \<or> (\<exists>pod. manifest s = Some pod
        \<and> manifest (snd (deployToKube br ens s))
            = Some (sanitizedPod ens s (convertTimestamp pod)))"
proof (cases rule: deployToKube_cases [of br ens s])
  case early
  then show ?thesis by simp
next
  case (warning w)
  then show ?thesis by simp
next
  case (error e)
  then show ?thesis by simp
next
  case (rejected a pod ings err s2)
  from untracked_eqD(1) [OF rejected(6)] rejected(1,2,5) show ?thesis
    by (simp add: manifest_def)
next
  case (accepted a pod ings)
  from arg_cong [OF accepted(5), of heap] arg_cong [OF accepted(5), of bodyPod] accepted(1,2)
  show ?thesis
    by (simp add: manifest_def)
qed

lemma deployToKube_timers:
  assumes "timers s \<subseteq> set_option (updatePodInterval s)"
  shows "timers (snd (deployToKube br ens s))
           \<subseteq> set_option (updatePodInterval (snd (deployToKube br ens s)))"
proof (cases rule: deployToKube_cases [of br ens s])
  case early
  with assms show ?thesis by auto
next
  case (warning w)
  with assms show ?thesis by auto
next
  case (error e)
  with assms show ?thesis by auto
next
  case (rejected a pod ings err s2)
  from untracked_eqD(3,4) [OF rejected(6)] rejected(5) assms show ?thesis
    by auto
next
  case (accepted a pod ings)
  from arg_cong [OF accepted(5), of timers] arg_cong [OF accepted(5), of updatePodInterval]
    assms show ?thesis
    by auto
qed

lemma deployToKube_creation_prefix:
  fixes ens :: "V1Pod \<Rightarrow> V1Pod"
  assumes "bodyPod s = Some a" "heap s a = Some pod" "truthyString (podName pod)"
    and "plannedIngress s pod = IngressPlanned ings"
  defines "plan \<equiv> creationPlan (currentNamespace s) (sanitizedPod ens s (convertTimestamp pod))
                     (plannedServices s pod) (plannedRoutes s pod) ings"
  shows "\<exists>k props. 0 < k \<and> k \<le> length plan
      \<and> calls (snd (deployToKube br ens s))
          = calls s @ take k plan @ [TelemetryTrack ''deployToKube'' props]
      \<and> (\<forall>i<k. rejected br (calls s @ take i plan) (plan ! i) \<longrightarrow> Suc i = k)
      \<and> (k < length plan \<longrightarrow> rejected br (calls s @ take (k - 1) plan) (plan ! (k - 1)))"
proof -
  obtain k props where k: "0 < k" "k \<le> length plan"
      "calls (snd (deployToKube br ens s))
         = calls s @ take k plan @ [TelemetryTrack ''deployToKube'' props]"
      "\<forall>i<k. rejected br (calls s @ take i plan) (plan ! i)
          \<longleftrightarrow> snd (issue br (calls s) plan) \<and> Suc i = k"
      "\<not> snd (issue br (calls s) plan) \<longrightarrow> k = length plan"
    using deployToKube_creation_calls [OF assms(1-4), of ens br] unfolding plan_def by blast
  have early: "k < length plan \<longrightarrow> rejected br (calls s @ take (k - 1) plan) (plan ! (k - 1))"
  proof
    assume "k < length plan"
    with k(5) have "snd (issue br (calls s) plan)" by auto
    moreover from k(1) have "k - 1 < k" "Suc (k - 1) = k" by simp_all
    ultimately show "rejected br (calls s @ take (k - 1) plan) (plan ! (k - 1))"
      using k(4) [rule_format, of "k - 1"] by simp
  qed
  from k(1-4) early show ?thesis by blast
qed

section \<open>The order of the creation calls\<close>

text \<open>
  C5. An attempt on a manifest that has a name and whose ingress planning went through
  makes its creation calls one after the other in the order Pod, services in plan
  order, routes in plan order, ingress: the calls it adds are the first \<open>k\<close> calls of
  that plan, \<open>k\<close> at least 1 (the Pod is always submitted), and then the telemetry
  event. A rejected call is the last creation call of the attempt, so nothing after it
  in the plan is called and nothing is called again; and the attempt stops before the
  end of the plan only at a rejected call. Every other attempt (no manifest, no name,
  or an ingress that could not be planned) makes no call at all.
\<close>

theorem deployToKube_creation_order:
  fixes ens :: "V1Pod \<Rightarrow> V1Pod"
  shows
  "(\<forall>pod ings.
      manifest s = Some pod \<and> truthyString (podName pod)
      \<and> plannedIngress s pod = IngressPlanned ings \<longrightarrow>
      (let plan = creationPlan (currentNamespace s)
                    (sanitizedPod ens s (convertTimestamp pod))
                    (plannedServices s pod) (plannedRoutes s pod) ings
       in \<exists>k props. 0 < k \<and> k \<le> length plan
            \<and> calls (snd (deployToKube br ens s))
                = calls s @ take k plan @ [TelemetryTrack ''deployToKube'' props]
            \<and> (\<forall>i<k. rejected br (calls s @ take i plan) (plan ! i) \<longrightarrow> Suc i = k)
            \<and> (k < length plan \<longrightarrow>
                 rejected br (calls s @ take (k - 1) plan) (plan ! (k - 1)))))
   \<and> ((\<forall>pod ings. manifest s = Some pod \<and> truthyString (podName pod)
          \<longrightarrow> plannedIngress s pod \<noteq> IngressPlanned ings)
        \<longrightarrow> calls (snd (deployToKube br ens s)) = calls s)"
proof (intro conjI allI impI)
  fix pod ings
  assume h: "manifest s = Some pod \<and> truthyString (podName pod)
      \<and> plannedIngress s pod = IngressPlanned ings"
  then obtain a where a: "bodyPod s = Some a" "heap s a = Some pod"
    by (auto simp: manifest_def split: option.splits)
  from h have t: "truthyString (podName pod)" "plannedIngress s pod = IngressPlanned ings"
    by simp_all
  from deployToKube_creation_prefix [OF a t, of ens br]
  show "let plan = creationPlan (currentNamespace s)
                    (sanitizedPod ens s (convertTimestamp pod))
                    (plannedServices s pod) (plannedRoutes s pod) ings
       in \<exists>k props. 0 < k \<and> k \<le> length plan
            \<and> calls (snd (deployToKube br ens s))
                = calls s @ take k plan @ [TelemetryTrack ''deployToKube'' props]
            \<and> (\<forall>i<k. rejected br (calls s @ take i plan) (plan ! i) \<longrightarrow> Suc i = k)
            \<and> (k < length plan \<longrightarrow>
                 rejected br (calls s @ take (k - 1) plan) (plan ! (k - 1)))"
    unfolding Let_def .
next
  assume n: "\<forall>pod ings. manifest s = Some pod \<and> truthyString (podName pod)
          \<longrightarrow> plannedIngress s pod \<noteq> IngressPlanned ings"
  show "calls (snd (deployToKube br ens s)) = calls s"
  proof (cases rule: deployToKube_cases [of br ens s])
    case early
    then show ?thesis by simp
  next
    case (warning w)
    then show ?thesis by simp
  next
    case (error e)
    then show ?thesis by simp
  next
    case (rejected a pod ings err s2)
    from rejected(1,2) have "manifest s = Some pod" by (simp add: manifest_def)
    with n rejected(3,4) show ?thesis by blast
  next
    case (accepted a pod ings)
    from accepted(1,2) have "manifest s = Some pod" by (simp add: manifest_def)
    with n accepted(3,4) show ?thesis by blast
  qed
qed

theorem deployToKube_creation_order_witness:
  "manifest (formState webPod) = Some webPod
   \<and> truthyString (podName webPod)
   \<and> plannedIngress (formState webPod) webPod = IngressPlanned []
   \<and> calls (formState webPod) = []
   \<and> map callSummary (calls (snd (deployToKube quietBridge id (formState webPod))))
       = [''pod web'', ''service web-8080'', ''service web-9090'', ''event deployToKube'']
   \<and> map callSummary (calls (snd (deployToKube quotaBridge id (formState webPod))))
       = [''pod web'', ''service web-8080'', ''event deployToKube'']
   \<and> rejected quotaBridge
         (calls (formState webPod) @ take 1 (creationPlan (Some ''default'') (sanitize True webPod)
            (plannedServices (formState webPod) webPod) [] []))
         (creationPlan (Some ''default'') (sanitize True webPod)
            (plannedServices (formState webPod) webPod) [] [] ! 1)
   \<and> (\<exists>k plan props. 0 < k
        \<and> calls (snd (deployToKube quotaBridge id (formState webPod)))
            = calls (formState webPod) @ take k plan @ [TelemetryTrack ''deployToKube'' props])
   \<and> manifest (ingressForm webPod None) = Some webPod
   \<and> plannedIngress (ingressForm webPod None) webPod = IngressWarning noPortWarning
   \<and> calls (snd (deployToKube quietBridge id (ingressForm webPod None)))
       = calls (ingressForm webPod None)"
proof -
  have ev: "manifest (formState webPod) = Some webPod
   \<and> truthyString (podName webPod)
   \<and> plannedIngress (formState webPod) webPod = IngressPlanned []
   \<and> calls (formState webPod) = []
   \<and> map callSummary (calls (snd (deployToKube quietBridge id (formState webPod))))
       = [''pod web'', ''service web-8080'', ''service web-9090'', ''event deployToKube'']
   \<and> map callSummary (calls (snd (deployToKube quotaBridge id (formState webPod))))
       = [''pod web'', ''service web-8080'', ''event deployToKube'']
   \<and> rejected quotaBridge
         (calls (formState webPod) @ take 1 (creationPlan (Some ''default'') (sanitize True webPod)
            (plannedServices (formState webPod) webPod) [] []))
         (creationPlan (Some ''default'') (sanitize True webPod)
            (plannedServices (formState webPod) webPod) [] [] ! 1)"
    by (simp add: model_defs plannedIngress_def plannedServices_def formState_def
        initialState_def quotaBridge_def quietBridge_def webPod_def clusterPod_def
        creationPlan_def rejected_def)
  have ev2: "manifest (ingressForm webPod None) = Some webPod
     \<and> plannedIngress (ingressForm webPod None) webPod = IngressWarning noPortWarning"
    by (simp add: model_defs plannedIngress_def plannedServices_def formState_def
        ingressForm_def initialState_def webPod_def)
  note t = deployToKube_creation_order [where s = "formState webPod" and br = quotaBridge
      and ens = id]
  from t [THEN conjunct1, rule_format, of webPod "[]"] ev
  have made: "\<exists>k plan props. 0 < k
        \<and> calls (snd (deployToKube quotaBridge id (formState webPod)))
            = calls (formState webPod) @ take k plan @ [TelemetryTrack ''deployToKube'' props]"
    unfolding Let_def by blast
  note u = deployToKube_creation_order [where s = "ingressForm webPod None"
      and br = quietBridge and ens = id]
  have "\<forall>pod ings. manifest (ingressForm webPod None) = Some pod \<and> truthyString (podName pod)
          \<longrightarrow> plannedIngress (ingressForm webPod None) pod \<noteq> IngressPlanned ings"
    using ev2 by auto
  with u have none: "calls (snd (deployToKube quietBridge id (ingressForm webPod None)))
       = calls (ingressForm webPod None)"
    by blast
  from ev ev2 made none show ?thesis by blast
qed

section \<open>The cases of ingress planning\<close>

text \<open>
  C2. With the ingress box ticked, for a manifest with a name: no planned service gives
  the warning about the missing service; one planned service gives one ingress whose
  default backend is that service's name and port; several services and no port chosen
  (\<open>ingressPort\<close> absent or 0, the test \<open>!ingressPort\<close>) give the warning about the
  port; several services and a chosen port that is the port of a planned service give
  one ingress whose backend is that service's name and port; several services and a
  chosen port that no planned service has give the error. After a warning or the error
  \<open>deployToKube\<close> has made no bridge call and created no pod.
\<close>

theorem ingress_planning_case_analysis:
  fixes br :: bridge and ens :: "V1Pod \<Rightarrow> V1Pod"
  assumes "bodyPod s = Some a" "heap s a = Some pod" "truthyString (podName pod)"
    and "createIngress s"
  defines "svcs \<equiv> plannedServices s pod"
  defines "s' \<equiv> snd (deployToKube br ens s)"
  shows "(svcs = [] \<longrightarrow> plannedIngress s pod = IngressWarning noServiceWarning)
    \<and> (\<forall>svc. svcs = [svc] \<longrightarrow>
          (\<exists>ing. plannedIngress s pod = IngressPlanned [ing]
             \<and> ingressKind ing = ''Ingress''
             \<and> backendServiceName ing = serviceName svc
             \<and> backendServicePort ing = servicePort svc))
    \<and> (1 < length svcs \<and> \<not> truthyNumber (ingressPort s) \<longrightarrow>
          plannedIngress s pod = IngressWarning noPortWarning)
    \<and> (\<forall>svc. 1 < length svcs \<and> truthyNumber (ingressPort s) \<and> svc \<in> set svcs
             \<and> servicePort svc = ingressPort s \<longrightarrow>
          (\<exists>ing. plannedIngress s pod = IngressPlanned [ing]
             \<and> ingressKind ing = ''Ingress''
             \<and> backendServiceName ing = serviceName svc
             \<and> backendServicePort ing = servicePort svc))
    \<and> (1 < length svcs \<and> truthyNumber (ingressPort s)
          \<and> (\<forall>svc\<in>set svcs. servicePort svc \<noteq> ingressPort s) \<longrightarrow>
          plannedIngress s pod = IngressError noMatchError)
    \<and> (\<forall>w. plannedIngress s pod = IngressWarning w \<longrightarrow>
          deployWarning s' = w \<and> calls s' = calls s \<and> createdPod s' = None)
    \<and> (\<forall>e. plannedIngress s pod = IngressError e \<longrightarrow>
          deployError s' = e \<and> calls s' = calls s \<and> createdPod s' = None)"
proof (intro conjI allI impI)
  show "plannedIngress s pod = IngressWarning noServiceWarning" if "svcs = []"
    using that assms(4) by (simp add: svcs_def plannedIngress_empty)
next
  fix svc assume "svcs = [svc]"
  then show "\<exists>ing. plannedIngress s pod = IngressPlanned [ing]
             \<and> ingressKind ing = ''Ingress''
             \<and> backendServiceName ing = serviceName svc
             \<and> backendServicePort ing = servicePort svc"
    using assms(4) by (simp add: svcs_def plannedIngress_single makeIngress_def)
next
  assume "1 < length svcs \<and> \<not> truthyNumber (ingressPort s)"
  then show "plannedIngress s pod = IngressWarning noPortWarning"
    using assms(4) by (simp add: svcs_def plannedIngress_unchosen)
next
  fix svc
  assume "1 < length svcs \<and> truthyNumber (ingressPort s) \<and> svc \<in> set svcs
             \<and> servicePort svc = ingressPort s"
  then show "\<exists>ing. plannedIngress s pod = IngressPlanned [ing]
             \<and> ingressKind ing = ''Ingress''
             \<and> backendServiceName ing = serviceName svc
             \<and> backendServicePort ing = servicePort svc"
    using assms(4) plannedIngress_matched [of s pod svc]
    by (simp add: svcs_def makeIngress_def)
next
  assume "1 < length svcs \<and> truthyNumber (ingressPort s)
          \<and> (\<forall>svc\<in>set svcs. servicePort svc \<noteq> ingressPort s)"
  then show "plannedIngress s pod = IngressError noMatchError"
    using assms(4) by (simp add: svcs_def plannedIngress_unmatched)
next
  fix w assume w: "plannedIngress s pod = IngressWarning w"
  show "deployWarning s' = w" "calls s' = calls s" "createdPod s' = None"
    by (simp_all add: s'_def deployToKube_warning [OF assms(1-3) w])
next
  fix e assume e: "plannedIngress s pod = IngressError e"
  show "deployError s' = e" "calls s' = calls s" "createdPod s' = None"
    by (simp_all add: s'_def deployToKube_error [OF assms(1-3) e])
qed

theorem ingress_planning_witness:
  "bodyPod (ingressForm webPod (Some 80)) = Some 0
   \<and> heap (ingressForm webPod (Some 80)) 0 = Some webPod
   \<and> truthyString (podName webPod)
   \<and> createIngress (ingressForm webPod (Some 80))
   \<and> map serviceName (plannedServices (ingressForm webPod (Some 80)) webPod)
        = [Some ''web-8080'', Some ''web-9090'']
   \<and> plannedIngress (ingressForm webPod (Some 80)) webPod = IngressError noMatchError
   \<and> calls (snd (deployToKube quietBridge id (ingressForm webPod (Some 80)))) = []
   \<and> plannedIngress (ingressForm webPod None) webPod = IngressWarning noPortWarning
   \<and> calls (snd (deployToKube quietBridge id (ingressForm webPod None))) = []
   \<and> plannedIngress ((ingressForm webPod None)\<lparr>deployUsingServices := False\<rparr>) webPod
        = IngressWarning noServiceWarning
   \<and> plannedIngress (ingressForm webPod (Some 9090)) webPod
        = IngressPlanned [makeIngress (Some ''web'') (Some ''default'') (Some ''web-9090'') (Some 9090)]
   \<and> plannedIngress (ingressForm singlePod None) singlePod
        = IngressPlanned [makeIngress (Some ''web'') (Some ''default'') (Some ''web-8080'') (Some 8080)]"
  using ingress_planning_case_analysis
          [of "ingressForm webPod (Some 80)" 0 webPod quietBridge id]
        ingress_planning_case_analysis
          [of "ingressForm webPod None" 0 webPod quietBridge id]
  by (simp add: model_defs plannedIngress_def plannedServices_def example_defs)

section \<open>The attempt flag after each way out\<close>

text \<open>
  C9. When the chosen ingress port matches none of several planned services,
  \<open>deployToKube\<close> sets the error text and returns with no bridge call made and with
  \<open>deployStarted\<close> still true. Both warnings, and an attempt in which the bridge
  rejects a creation call, leave \<open>deployStarted\<close> false.
\<close>

theorem ingress_error_leaves_deployStarted:
  fixes br :: bridge and ens :: "V1Pod \<Rightarrow> V1Pod"
  assumes "bodyPod s = Some a" "heap s a = Some pod" "truthyString (podName pod)"
  defines "svcs \<equiv> plannedServices s pod"
  defines "s' \<equiv> snd (deployToKube br ens s)"
  defines "plan \<equiv> creationPlan (currentNamespace s) (sanitizedPod ens s (convertTimestamp pod))
                     (plannedServices s pod) (plannedRoutes s pod)"
  shows "(createIngress s \<and> 1 < length svcs \<and> truthyNumber (ingressPort s)
            \<and> (\<forall>svc\<in>set svcs. servicePort svc \<noteq> ingressPort s) \<longrightarrow>
          deployError s' = noMatchError \<and> calls s' = calls s \<and> deployStarted s')
    \<and> (createIngress s \<and> svcs = [] \<longrightarrow>
          deployWarning s' = noServiceWarning \<and> calls s' = calls s \<and> \<not> deployStarted s')
    \<and> (createIngress s \<and> 1 < length svcs \<and> \<not> truthyNumber (ingressPort s) \<longrightarrow>
          deployWarning s' = noPortWarning \<and> calls s' = calls s \<and> \<not> deployStarted s')
    \<and> (\<forall>ings i. plannedIngress s pod = IngressPlanned ings \<and> i < length (plan ings)
            \<and> rejected br (calls s @ take i (plan ings)) (plan ings ! i) \<longrightarrow>
          \<not> deployStarted s')"
proof (intro conjI allI impI)
  assume h: "createIngress s \<and> 1 < length svcs \<and> truthyNumber (ingressPort s)
            \<and> (\<forall>svc\<in>set svcs. servicePort svc \<noteq> ingressPort s)"
  then have e: "plannedIngress s pod = IngressError noMatchError"
    by (simp add: svcs_def plannedIngress_unmatched)
  show "deployError s' = noMatchError" "calls s' = calls s" "deployStarted s'"
    by (simp_all add: s'_def deployToKube_error [OF assms(1-3) e])
next
  assume h: "createIngress s \<and> svcs = []"
  then have w: "plannedIngress s pod = IngressWarning noServiceWarning"
    by (simp add: svcs_def plannedIngress_empty)
  show "deployWarning s' = noServiceWarning" "calls s' = calls s" "\<not> deployStarted s'"
    by (simp_all add: s'_def deployToKube_warning [OF assms(1-3) w])
next
  assume h: "createIngress s \<and> 1 < length svcs \<and> \<not> truthyNumber (ingressPort s)"
  then have w: "plannedIngress s pod = IngressWarning noPortWarning"
    by (simp add: svcs_def plannedIngress_unchosen)
  show "deployWarning s' = noPortWarning" "calls s' = calls s" "\<not> deployStarted s'"
    by (simp_all add: s'_def deployToKube_warning [OF assms(1-3) w])
next
  fix ings i
  assume h: "plannedIngress s pod = IngressPlanned ings \<and> i < length (plan ings)
            \<and> rejected br (calls s @ take i (plan ings)) (plan ings ! i)"
  then have "snd (issue br (calls s) (plan ings))"
    using rejected_issue [of i "plan ings" br "calls s"] by simp
  with h deployToKube_rejected [OF assms(1-3), of ings br ens]
  show "\<not> deployStarted s'"
    by (auto simp: s'_def plan_def)
qed

theorem ingress_error_leaves_deployStarted_witness:
  "bodyPod (ingressForm webPod (Some 80)) = Some 0
   \<and> heap (ingressForm webPod (Some 80)) 0 = Some webPod
   \<and> truthyString (podName webPod)
   \<and> createIngress (ingressForm webPod (Some 80))
   \<and> 1 < length (plannedServices (ingressForm webPod (Some 80)) webPod)
   \<and> truthyNumber (ingressPort (ingressForm webPod (Some 80)))
   \<and> list_all (\<lambda>svc. servicePort svc \<noteq> Some 80)
        (plannedServices (ingressForm webPod (Some 80)) webPod)
   \<and> deployStarted (snd (deployToKube quietBridge id (ingressForm webPod (Some 80))))
   \<and> deployError (snd (deployToKube quietBridge id (ingressForm webPod (Some 80)))) = noMatchError
   \<and> \<not> deployStarted (snd (deployToKube quietBridge id (ingressForm webPod None)))
   \<and> \<not> deployStarted (snd (deployToKube refusingBridge id (formState webPod)))"
  using ingress_error_leaves_deployStarted
          [of "ingressForm webPod (Some 80)" 0 webPod quietBridge id]
  by (simp add: model_defs plannedIngress_def plannedServices_def example_defs)

section \<open>The manifest after a failed attempt\<close>

text \<open>
  C1. The form after a failed Pod creation. Line 310 copies the reference in \<open>bodyPod\<close>,
  the \<open>try\<close> block deletes fields of the one object both names refer to, and line 373
  assigns the same reference back: the form then holds the sanitized manifest, without
  \<open>spec.volumes\<close>, \<open>volumeMounts\<close> and host ports, and not the manifest it held before.
  The same holds when a later creation call is the one rejected. A second click on
  Deploy therefore plans no service.
\<close>

theorem failed_submission_keeps_sanitized_manifest:
  "manifest (formState webPod) = Some webPod
   \<and> rejected refusingBridge [] (KubernetesCreatePod (Some ''default'') (sanitize True webPod))
   \<and> manifest (snd (deployToKube refusingBridge id (formState webPod)))
        = Some (sanitize True webPod)
   \<and> manifest (snd (deployToKube quotaBridge id (formState webPod)))
        = Some (sanitize True webPod)
   \<and> sanitize True webPod \<noteq> webPod
   \<and> podVolumes webPod = Some [''data'']
   \<and> podVolumes (sanitize True webPod) = None
   \<and> map hostPort (podPorts webPod) = [Some 8080, None, Some 9090]
   \<and> map hostPort (podPorts (sanitize True webPod)) = [None, None, None]
   \<and> deployError (snd (deployToKube refusingBridge id (formState webPod))) = ''connection refused''
   \<and> map callSummary
        (calls (snd (deployToKube quietBridge id
                  (snd (deployToKube refusingBridge id (formState webPod))))))
        = [''pod web'', ''event deployToKube'', ''pod web'', ''event deployToKube'']"
  by (simp add: model_defs example_defs podVolumes_def rejected_def)

section \<open>The reactive block: the app label follows the name\<close>

text \<open>
  C7. When \<open>metadata.labels\<close> exists, the reactive block leaves \<open>labels.app\<close> equal to
  \<open>metadata.name\<close>, and to the empty string when the name is absent; the name itself
  is not changed. When the labels do not exist the block changes nothing. So after the
  Pod Name input has assigned a name \<open>v\<close>, the empty one included, the form's manifest has
  that name, its \<open>app\<close> label is \<open>v\<close> if it had labels, and otherwise it is the old
  manifest with the new name and still no labels.
\<close>

theorem label_follows_name:
  "(hasLabels pod \<longrightarrow>
      appLabel (syncLabel pod) = Some (case podName pod of None \<Rightarrow> [] | Some n \<Rightarrow> n)
      \<and> podName (syncLabel pod) = podName pod)
   \<and> (\<not> hasLabels pod \<longrightarrow> syncLabel pod = pod)
   \<and> (bodyPod s = Some a \<and> heap s a = Some pod \<and> metadata pod = Some m \<longrightarrow>
        (\<exists>pod'. manifest (setPodName v s) = Some pod' \<and> podName pod' = Some v
           \<and> (hasLabels pod \<longrightarrow> appLabel pod' = Some v)
           \<and> (\<not> hasLabels pod \<longrightarrow> pod' = pod\<lparr>metadata := Some (m\<lparr>name := Some v\<rparr>)\<rparr>)))"
  by (cases "metadata pod"; cases "labels m")
     (auto simp: setPodName_def labelSync_def store_def manifest_def syncLabel_def
        update_conv' hasLabels_def appLabel_def podName_def split: option.splits)

theorem label_follows_name_witness:
  "hasLabels webPod
   \<and> bodyPod (formState webPod) = Some 0 \<and> heap (formState webPod) 0 = Some webPod
   \<and> (map_option appLabel (manifest (setPodName ''shop'' (formState webPod)))) = Some (Some ''shop'')
   \<and> (map_option appLabel (manifest (setPodName [] (formState webPod)))) = Some (Some [])
   \<and> (map_option podName (manifest (setPodName [] (formState webPod)))) = Some (Some [])
   \<and> \<not> hasLabels singlePod
   \<and> syncLabel singlePod = singlePod
   \<and> (map_option hasLabels (manifest (setPodName ''shop'' (formState singlePod)))) = Some False"
  using label_follows_name [of webPod "formState webPod" 0 "the (metadata webPod)" "''shop''"]
    label_follows_name [of singlePod "formState singlePod" 0 "the (metadata singlePod)" "''shop''"]
  by (simp add: setPodName_def labelSync_def store_def manifest_def syncLabel_def
        hasLabels_def appLabel_def podName_def example_defs)

section \<open>onMount: the port options and the pull policy\<close>

lemma fold_push: "fold (\<lambda>p arr. arr @ [f p]) ps arr = arr @ map f ps"
  by (induction ps arbitrary: arr) auto

lemma fold_mountContainer:
  "fold mountContainer cs acc =
     (fst acc @ map hostPort (concat (map containerPorts cs)),
      snd acc @ map (\<lambda>c. c\<lparr>imagePullPolicy := Some ''IfNotPresent''\<rparr>) cs)"
  by (induction cs arbitrary: acc) (auto simp: mountContainer_def fold_push)

lemma containerPorts_policy [simp]:
  "containerPorts (c\<lparr>imagePullPolicy := x\<rparr>) = containerPorts c"
  by (simp add: containerPorts_def)

lemma mountContainers_result:
  assumes "heap s a = Some pod" "bodyPod s = Some a"
  shows "\<exists>pod'. manifest (snd (mountContainers a pod s)) = Some pod'
      \<and> pullsIfNotPresent pod'
      \<and> map (\<lambda>c. c\<lparr>imagePullPolicy := None\<rparr>) (podContainers pod')
          = map (\<lambda>c. c\<lparr>imagePullPolicy := None\<rparr>) (podContainers pod)
      \<and> metadata pod' = metadata pod
      \<and> containerPortArray (snd (mountContainers a pod s))
          = containerPortArray s @ map hostPort (podPorts pod')"
  using assms
  by (auto simp: mountContainers_def manifest_def store_def fold_mountContainer Let_def
        pullsIfNotPresent_def podContainers_def podPorts_def list_all_iff comp_def
      split: option.splits)

lemma mountManifest_simps [simp]:
  "bodyPod (mountManifest br ld rid eid ty s) = Some (nextAddress s)"
  "heap (mountManifest br ld rid eid ty s) (nextAddress s)
     = Some (ld (generatePodmanKube br
                  (if ty = ''compose''
                   then calls s @ [ListSimpleContainersByLabel ''com.docker.compose.project'' rid]
                   else calls s) eid
                  (if ty = ''compose''
                   then listSimpleContainersByLabel br (calls s) ''com.docker.compose.project'' rid
                   else [rid])))"
  "containerPortArray (mountManifest br ld rid eid ty s) = containerPortArray s"
  "timers (mountManifest br ld rid eid ty s) = timers s"
  "updatePodInterval (mountManifest br ld rid eid ty s) = updatePodInterval s"
  by (simp_all add: mountManifest_def Let_def store_def recordCall_def)

lemma mountContext_simps [simp]:
  "bodyPod (mountContext br s) = bodyPod s"
  "heap (mountContext br s) = heap s"
  "containerPortArray (mountContext br s) = containerPortArray s"
  "timers (mountContext br s) = timers s"
  "updatePodInterval (mountContext br s) = updatePodInterval s"
  by (simp_all add: mountContext_def Let_def recordCall_def)

lemma mountNamespaces_simps [simp]:
  "bodyPod (mountNamespaces br s) = bodyPod s"
  "heap (mountNamespaces br s) = heap s"
  "containerPortArray (mountNamespaces br s) = containerPortArray s"
  "timers (mountNamespaces br s) = timers s"
  "updatePodInterval (mountNamespaces br s) = updatePodInterval s"
  by (simp_all add: mountNamespaces_def Let_def recordCall_def split: sum.splits)

lemma mountOpenshift_simps [simp]:
  "bodyPod (mountOpenshift br s) = bodyPod s"
  "heap (mountOpenshift br s) = heap s"
  "containerPortArray (mountOpenshift br s) = containerPortArray s"
  "timers (mountOpenshift br s) = timers s"
  "updatePodInterval (mountOpenshift br s) = updatePodInterval s"
  by (simp_all add: mountOpenshift_def Let_def recordCall_def split: sum.splits)

lemma mount_calls:
  "filter isCreatePod (calls (mountManifest br ld rid eid ty s)) = filter isCreatePod (calls s)"
  "filter isCreatePod (calls (mountContext br s)) = filter isCreatePod (calls s)"
  "filter isCreatePod (calls (mountNamespaces br s)) = filter isCreatePod (calls s)"
  "filter isCreatePod (calls (mountOpenshift br s)) = filter isCreatePod (calls s)"
  by (simp_all add: mountManifest_def mountContext_def mountNamespaces_def mountOpenshift_def
      Let_def store_def recordCall_def split: sum.splits)

lemma mountContainers_frame [simp]:
  "calls (snd (mountContainers a pod s)) = calls s"
  "timers (snd (mountContainers a pod s)) = timers s"
  "updatePodInterval (snd (mountContainers a pod s)) = updatePodInterval s"
  by (simp_all add: mountContainers_def Let_def store_def split: option.splits)

lemma onMount_result:
  "\<exists>pod'. manifest (snd (onMount br ld rid eid ty s)) = Some pod'
      \<and> pullsIfNotPresent pod'
      \<and> containerPortArray (snd (onMount br ld rid eid ty s))
          = containerPortArray s @ map hostPort (podPorts pod')"
proof -
  let ?s2 = "mountOpenshift br (mountNamespaces br (mountContext br
               (mountManifest br ld rid eid ty s)))"
  obtain pod where h: "heap ?s2 (nextAddress s) = Some pod" by simp
  have b: "bodyPod ?s2 = Some (nextAddress s)" by simp
  from mountContainers_result [OF h b] obtain pod' where
    "manifest (snd (mountContainers (nextAddress s) pod ?s2)) = Some pod'"
    "pullsIfNotPresent pod'"
    "containerPortArray (snd (mountContainers (nextAddress s) pod ?s2))
       = containerPortArray ?s2 @ map hostPort (podPorts pod')"
    by blast
  moreover have "onMount br ld rid eid ty s = mountContainers (nextAddress s) pod ?s2"
    using h b by (simp add: onMount_def Let_def)
  ultimately show ?thesis by simp
qed

lemma onMount_frame:
  "filter isCreatePod (calls (snd (onMount br ld rid eid ty s))) = filter isCreatePod (calls s)"
  "timers (snd (onMount br ld rid eid ty s)) = timers s"
  "updatePodInterval (snd (onMount br ld rid eid ty s)) = updatePodInterval s"
  by (simp_all add: onMount_def Let_def mount_calls)

section \<open>The pods an attempt submits\<close>

lemma submittedPods_simps [simp]:
  "submittedPods [] = []"
  "submittedPods (xs @ ys) = submittedPods xs @ submittedPods ys"
  "submittedPods (c # cs) = (case submitted c of None \<Rightarrow> [] | Some p \<Rightarrow> [p]) @ submittedPods cs"
  by (simp_all add: submittedPods_def List.map_filter_def split: option.splits)

lemma submittedPods_none:
  "\<forall>c\<in>set cs. submitted c = None \<Longrightarrow> submittedPods cs = []"
  by (induction cs) auto

lemma submittedPods_plan:
  "0 < k \<Longrightarrow> submittedPods (take k (creationPlan ns pod svcs rts ings)) = [pod]"
proof -
  assume "0 < k"
  then obtain j where k: "k = Suc j" by (cases k) auto
  let ?rest = "map (KubernetesCreateService ns) svcs
       @ map (OpenshiftCreateRoute ns) rts @ map (KubernetesCreateIngress ns) ings"
  have "\<forall>c\<in>set (take j ?rest). submitted c = None"
    by (auto dest!: in_set_takeD)
  then have "submittedPods (take j ?rest) = []" by (rule submittedPods_none)
  then show ?thesis by (simp add: k creationPlan_def)
qed

lemma deployToKube_submitted:
  "submittedPods (calls (snd (deployToKube br ens s))) = submittedPods (calls s)
   \<or> (\<exists>pod. manifest s = Some pod
        \<and> submittedPods (calls (snd (deployToKube br ens s)))
            = submittedPods (calls s) @ [sanitizedPod ens s (convertTimestamp pod)])"
proof -
  have planned: "\<exists>pod. manifest s = Some pod
        \<and> submittedPods (calls (snd (deployToKube br ens s)))
            = submittedPods (calls s) @ [sanitizedPod ens s (convertTimestamp pod)]"
    if h: "bodyPod s = Some a" "heap s a = Some pod" "truthyString (podName pod)"
      "plannedIngress s pod = IngressPlanned ings" for a pod ings
  proof -
    let ?plan = "creationPlan (currentNamespace s) (sanitizedPod ens s (convertTimestamp pod))
                   (plannedServices s pod) (plannedRoutes s pod) ings"
    from deployToKube_creation_calls [OF h] obtain k props where
      "0 < k" "calls (snd (deployToKube br ens s))
          = calls s @ take k ?plan @ [TelemetryTrack ''deployToKube'' props]"
      by blast
    then show ?thesis
      using h(1,2) by (simp add: submittedPods_plan manifest_def)
  qed
  show ?thesis
  proof (cases rule: deployToKube_cases [of br ens s])
    case early
    then show ?thesis by simp
  next
    case (warning w)
    then show ?thesis by simp
  next
    case (error e)
    then show ?thesis by simp
  next
    case (rejected a pod ings err s2)
    from planned [OF rejected(1-4)] show ?thesis by blast
  next
    case (accepted a pod ings)
    from planned [OF accepted(1-4)] show ?thesis by blast
  qed
qed

section \<open>Every submitted pod pulls IfNotPresent\<close>

lemma pulls_policies:
  "pullsIfNotPresent pod
     \<longleftrightarrow> list_all (\<lambda>x. x = Some ''IfNotPresent'') (map imagePullPolicy (podContainers pod))"
  by (simp add: pullsIfNotPresent_def list_all_iff)

lemma sanitize_policies:
  "map imagePullPolicy (podContainers (sanitize u pod)) = map imagePullPolicy (podContainers pod)"
  by (auto simp: sanitize_def removeVolumes_def removeHostPorts_def podContainers_def
      sanitizeContainer_def Let_def comp_def split: option.splits)

lemma convertTimestamp_containers [simp]:
  "podContainers (convertTimestamp pod) = podContainers pod"
  by (auto simp: convertTimestamp_def podContainers_def split: option.splits timestamp.splits)

lemma syncLabel_containers [simp]: "podContainers (syncLabel pod) = podContainers pod"
  by (auto simp: syncLabel_def podContainers_def split: option.splits)

lemma pulls_preserved [simp]:
  "pullsIfNotPresent (sanitize u pod) = pullsIfNotPresent pod"
  "pullsIfNotPresent (convertTimestamp pod) = pullsIfNotPresent pod"
  "pullsIfNotPresent (syncLabel pod) = pullsIfNotPresent pod"
  by (simp_all add: pulls_policies sanitize_policies)

lemma pulls_sanitizedPod:
  assumes "\<forall>p. pullsIfNotPresent p \<longrightarrow> pullsIfNotPresent (ens p)"
  shows "pullsIfNotPresent pod \<Longrightarrow> pullsIfNotPresent (sanitizedPod ens s pod)"
  using assms by (simp add: sanitizedPod_def Let_def)

lemma labelSync_simps [simp]:
  "manifest (labelSync s) = map_option syncLabel (manifest s)"
  "calls (labelSync s) = calls s"
  "timers (labelSync s) = timers s"
  "updatePodInterval (labelSync s) = updatePodInterval s"
  "containerPortArray (labelSync s) = containerPortArray s"
  by (auto simp: labelSync_def manifest_def store_def split: option.splits)

lemma setPodName_frame [simp]:
  "calls (setPodName v s) = calls s"
  "timers (setPodName v s) = timers s"
  "updatePodInterval (setPodName v s) = updatePodInterval s"
  by (auto simp: setPodName_def labelSync_def store_def split: option.splits)

lemma setPodName_containers:
  "manifest (setPodName v s) = Some pod' \<Longrightarrow>
   \<exists>pod. manifest s = Some pod \<and> podContainers pod' = podContainers pod"
  by (auto simp: setPodName_def labelSync_def store_def manifest_def syncLabel_def
      podContainers_def split: option.splits if_splits)

lemma updatePod_frame:
  "manifest (updatePod br s) = manifest s"
  "submittedPods (calls (updatePod br s)) = submittedPods (calls s)"
  "updatePodInterval (updatePod br s) = updatePodInterval s"
  "timers (updatePod br s) \<subseteq> timers s"
  by (auto simp: updatePod_def manifest_def Let_def split: option.splits sum.splits)

lemma submittedPods_filter:
  "filter isCreatePod cs = [] \<Longrightarrow> submittedPods cs = []"
proof (induction cs)
  case Nil
  then show ?case by simp
next
  case (Cons c cs)
  then show ?case by (cases c) (simp_all split: if_splits)
qed

lemma mounted_facts:
  "\<exists>pod. manifest (mounted br ld rid eid ty) = Some pod \<and> pullsIfNotPresent pod
      \<and> containerPortArray (mounted br ld rid eid ty) = map hostPort (podPorts pod)"
  "submittedPods (calls (mounted br ld rid eid ty)) = []"
  "timers (mounted br ld rid eid ty) = {}"
proof -
  from onMount_result [of br ld rid eid ty initialState]
  obtain pod where p: "manifest (snd (onMount br ld rid eid ty initialState)) = Some pod"
     "pullsIfNotPresent pod"
     "containerPortArray (snd (onMount br ld rid eid ty initialState))
        = containerPortArray initialState @ map hostPort (podPorts pod)"
    by blast
  have "podPorts (syncLabel pod) = podPorts pod" by (simp add: podPorts_def)
  with p show "\<exists>pod. manifest (mounted br ld rid eid ty) = Some pod \<and> pullsIfNotPresent pod
      \<and> containerPortArray (mounted br ld rid eid ty) = map hostPort (podPorts pod)"
    by (simp add: mounted_def initialState_def)
  show "submittedPods (calls (mounted br ld rid eid ty)) = []"
    by (rule submittedPods_filter) (simp add: mounted_def onMount_frame initialState_def)
  show "timers (mounted br ld rid eid ty) = {}"
    by (simp add: mounted_def onMount_frame initialState_def)
qed

lemmas mount_defs =
  mounted_def onMount_def mountManifest_def mountContext_def mountNamespaces_def
  mountOpenshift_def mountContainers_def mountContainer_def labelSync_def syncLabel_def
  fold_mountContainer webForm_def

lemma webForm_eq:
  "webForm =
     initialState\<lparr>heap := [0 \<mapsto> the (manifest webForm)], nextAddress := 1, bodyPod := Some 0,
       defaultContextName := Some ''kind-kind'', currentNamespace := Some ''default'',
       containerPortArray := [Some 8080, None, Some 9090],
       calls := [GeneratePodmanKube ''podman'' [''web''], KubernetesGetCurrentContextName,
                 KubernetesGetCurrentNamespace, KubernetesListNamespaces,
                 KubernetesIsAPIGroupSupported ''route.openshift.io'',
                 KubernetesReadNamespacedConfigMap ''console-public''
                   ''openshift-config-managed'']\<rparr>"
  by (simp add: mount_defs model_defs example_defs)

section \<open>onMount one stretch at a time\<close>

lemma listingNamespaces_eq:
  "runComponent quietBridge id parseWeb ''web'' ''podman'' ''pod''
      (replicate 4 OnMountResumes) created
   = (AwaitNamespaces (Inl (JsError ''forbidden'')),
     initialState\<lparr>heap := [0 \<mapsto> webPod], nextAddress := 1, bodyPod := Some 0,
       defaultContextName := Some ''kind-kind'', currentNamespace := Some ''default'',
       calls := [GeneratePodmanKube ''podman'' [''web''], KubernetesGetCurrentContextName,
                 KubernetesGetCurrentNamespace, KubernetesListNamespaces]\<rparr>)"
  by (simp add: runComponent_def created_def numeral_eq_Suc recordCall_def store_def
      labelSync_def syncLabel_def example_defs AList.update.simps Let_def)


lemma runComponent_simps [simp]:
  "runComponent br ens ld rid eid ty [] ps = ps"
  "runComponent br ens ld rid eid ty (a # acts) ps
     = runComponent br ens ld rid eid ty acts (perform br ens ld rid eid ty a ps)"
  "runComponent br ens ld rid eid ty (xs @ ys) ps
     = runComponent br ens ld rid eid ty ys (runComponent br ens ld rid eid ty xs ps)"
  by (simp_all add: runComponent_def)

lemma mountPorts_ended: "endedAt (fst (mountPorts s))"
  by (simp add: mountPorts_def split: option.splits)

lemma resumeOnMount_ended:
  "endedAt p \<Longrightarrow> resumeOnMount br ld rid eid ty p s = (p, s)"
  by (cases p) simp_all

lemma resumes_ended:
  "endedAt (fst ps) \<Longrightarrow> runComponent br ens ld rid eid ty (replicate n OnMountResumes) ps = ps"
  by (induction n) (simp_all add: resumeOnMount_ended)

lemma syncLabel_spec [simp]:
  "spec (syncLabel pod) = spec pod"
  "syncLabel (pod\<lparr>spec := x\<rparr>) = (syncLabel pod)\<lparr>spec := x\<rparr>"
  by (simp_all add: syncLabel_def split: option.splits)

lemma mountContainers_labelSync:
  assumes "bodyPod s = Some a" "heap s a = Some pod"
  shows "mountContainers a (syncLabel pod) (labelSync s)
     = (fst (mountContainers a pod s), labelSync (snd (mountContainers a pod s)))"
  using assms
  by (simp add: mountContainers_def labelSync_def store_def Let_def split: option.splits)

lemma mountPorts_labelSync:
  "mountPorts (labelSync s) = (fst (mountPorts s), labelSync (snd (mountPorts s)))"
proof (cases "bodyPod s")
  case None
  then show ?thesis by (simp add: mountPorts_def labelSync_def)
next
  case (Some a)
  show ?thesis
  proof (cases "heap s a")
    case None
    with Some show ?thesis by (simp add: mountPorts_def labelSync_def)
  next
    case (Some pod)
    with \<open>bodyPod s = Some a\<close>
    have "bodyPod (labelSync s) = Some a" "heap (labelSync s) a = Some (syncLabel pod)"
      by (simp_all add: labelSync_def store_def)
    with mountContainers_labelSync [OF \<open>bodyPod s = Some a\<close> Some] \<open>bodyPod s = Some a\<close> Some
    show ?thesis by (simp add: mountPorts_def)
  qed
qed

lemma labelSync_update:
  "labelSync (s\<lparr>calls := c\<rparr>) = (labelSync s)\<lparr>calls := c\<rparr>"
  "labelSync (s\<lparr>defaultContextName := n\<rparr>) = (labelSync s)\<lparr>defaultContextName := n\<rparr>"
  "labelSync (s\<lparr>currentNamespace := n\<rparr>) = (labelSync s)\<lparr>currentNamespace := n\<rparr>"
  "labelSync (s\<lparr>allNamespaces := l\<rparr>) = (labelSync s)\<lparr>allNamespaces := l\<rparr>"
  "labelSync (s\<lparr>openshiftRouteGroupSupported := b\<rparr>)
     = (labelSync s)\<lparr>openshiftRouteGroupSupported := b\<rparr>"
  "labelSync (s\<lparr>openshiftConsoleURL := u\<rparr>) = (labelSync s)\<lparr>openshiftConsoleURL := u\<rparr>"
  "currentNamespace (labelSync s) = currentNamespace s"
  by (simp_all add: labelSync_def store_def split: option.splits)

lemma mountPorts_labelSync_url:
  "mountPorts ((labelSync s)\<lparr>openshiftConsoleURL := u\<rparr>)
     = (fst (mountPorts (s\<lparr>openshiftConsoleURL := u\<rparr>)),
        labelSync (snd (mountPorts (s\<lparr>openshiftConsoleURL := u\<rparr>))))"
  using mountPorts_labelSync [of "s\<lparr>openshiftConsoleURL := u\<rparr>"]
  by (simp add: labelSync_update)

lemma resumeOnMount_labelSync:
  "parsedAt p \<Longrightarrow>
   resumeOnMount br ld rid eid ty p (labelSync s)
     = (fst (resumeOnMount br ld rid eid ty p s), labelSync (snd (resumeOnMount br ld rid eid ty p s)))"
  by (cases p)
     (simp_all add: Let_def recordCall_def labelSync_update mountPorts_labelSync
        mountPorts_labelSync_url split: sum.splits)

lemma mountPorts_parsed: "parsedAt (fst (mountPorts s))"
  by (simp add: mountPorts_def split: option.splits)

lemma resumeOnMount_parsed:
  "parsedAt p \<Longrightarrow> parsedAt (fst (resumeOnMount br ld rid eid ty p s))"
  by (cases p) (simp_all add: Let_def mountPorts_parsed split: sum.splits)

lemma resumes_labelSync:
  "parsedAt p \<Longrightarrow>
   runComponent br ens ld rid eid ty (replicate n OnMountResumes) (p, labelSync s)
     = (fst (runComponent br ens ld rid eid ty (replicate n OnMountResumes) (p, s)),
        labelSync (snd (runComponent br ens ld rid eid ty (replicate n OnMountResumes) (p, s))))"
proof (induction n arbitrary: p s)
  case 0
  then show ?case by simp
next
  case (Suc n)
  obtain p' s' where r: "resumeOnMount br ld rid eid ty p s = (p', s')" by (cases "resumeOnMount br ld rid eid ty p s")
  with resumeOnMount_parsed [OF Suc.prems, of br ld rid eid ty s] have "parsedAt p'" by simp
  from Suc.IH [OF this, of s'] r resumeOnMount_labelSync [OF Suc.prems, of br ld rid eid ty s]
  show ?case by simp
qed

lemma mountContext_run:
  "runComponent br ens ld rid eid ty (replicate 5 OnMountResumes)
     (AwaitContextName (kubernetesGetCurrentContextName br (calls s)),
      recordCall KubernetesGetCurrentContextName s)
   = mountPorts (mountOpenshift br (mountNamespaces br (mountContext br s)))"
proof -
  have e: "resumeOnMount br ld rid eid ty (fst (mountPorts x)) (snd (mountPorts x)) = mountPorts x" for x
    using mountPorts_ended [of x] by (simp add: resumeOnMount_ended)
  show ?thesis
    by (simp add: numeral_eq_Suc Let_def mountContext_def mountNamespaces_def mountOpenshift_def
        recordCall_def e split: sum.splits)
qed

lemma mountManifest_run:
  "\<exists>n\<le>3. runComponent br ens ld rid eid ty (replicate n OnMountResumes) (MountStart, s)
     = (AwaitContextName
          (kubernetesGetCurrentContextName br (calls (mountManifest br ld rid eid ty s))),
        labelSync (recordCall KubernetesGetCurrentContextName (mountManifest br ld rid eid ty s)))"
proof (cases "ty = ''compose''")
  case True
  then have "runComponent br ens ld rid eid ty (replicate 3 OnMountResumes) (MountStart, s)
     = (AwaitContextName
          (kubernetesGetCurrentContextName br (calls (mountManifest br ld rid eid ty s))),
        labelSync (recordCall KubernetesGetCurrentContextName (mountManifest br ld rid eid ty s)))"
    by (simp add: numeral_eq_Suc Let_def mountManifest_def recordCall_def store_def)
  then show ?thesis by (intro exI [of _ 3]) simp
next
  case False
  then have "runComponent br ens ld rid eid ty (replicate 2 OnMountResumes) (MountStart, s)
     = (AwaitContextName
          (kubernetesGetCurrentContextName br (calls (mountManifest br ld rid eid ty s))),
        labelSync (recordCall KubernetesGetCurrentContextName (mountManifest br ld rid eid ty s)))"
    by (simp add: numeral_eq_Suc Let_def mountManifest_def recordCall_def store_def)
  then show ?thesis by (intro exI [of _ 2]) simp
qed

lemma mounted_run:
  "runComponent br ens ld rid eid ty (replicate 8 OnMountResumes) (MountStart, s)
   = (MountEnded (fst (onMount br ld rid eid ty s)), labelSync (snd (onMount br ld rid eid ty s)))"
proof -
  let ?m = "mountManifest br ld rid eid ty s"
  let ?q = "AwaitContextName (kubernetesGetCurrentContextName br (calls ?m))"
  let ?t = "mountPorts (mountOpenshift br (mountNamespaces br (mountContext br ?m)))"
  from mountManifest_run [of br ens ld rid eid ty s] obtain n where
    n: "n \<le> 3" "runComponent br ens ld rid eid ty (replicate n OnMountResumes) (MountStart, s)
       = (?q, labelSync (recordCall KubernetesGetCurrentContextName ?m))"
    by blast
  from mountContext_run [of br ens ld rid eid ty ?m]
    resumes_labelSync [of ?q br ens ld rid eid ty 5 "recordCall KubernetesGetCurrentContextName ?m"]
  have five: "runComponent br ens ld rid eid ty (replicate 5 OnMountResumes)
       (?q, labelSync (recordCall KubernetesGetCurrentContextName ?m))
     = (fst ?t, labelSync (snd ?t))"
    by simp
  from n(1) have "replicate 8 OnMountResumes
      = replicate n OnMountResumes @ replicate 5 OnMountResumes @ replicate (3 - n) OnMountResumes"
    by (simp add: replicate_add [symmetric])
  then have "runComponent br ens ld rid eid ty (replicate 8 OnMountResumes) (MountStart, s)
      = runComponent br ens ld rid eid ty (replicate (3 - n) OnMountResumes)
          (fst ?t, labelSync (snd ?t))"
    using n(2) five by simp
  also have "\<dots> = (fst ?t, labelSync (snd ?t))"
    by (rule resumes_ended) (simp add: mountPorts_ended)
  also have "\<dots> = (MountEnded (fst (onMount br ld rid eid ty s)),
                    labelSync (snd (onMount br ld rid eid ty s)))"
    by (simp add: onMount_def mountPorts_def Let_def split: option.splits)
  finally show ?thesis .
qed


lemma mountPorts_calls [simp]: "calls (snd (mountPorts s)) = calls s"
  by (simp add: mountPorts_def split: option.splits)

lemma resumeOnMount_submitted:
  "submittedPods (calls (snd (resumeOnMount br ld rid eid ty p s))) = submittedPods (calls s)"
  by (cases p) (simp_all add: Let_def recordCall_def split: sum.splits)

lemma mountPorts_pulls:
  "manifest s \<noteq> None \<Longrightarrow>
   \<exists>pod. manifest (snd (mountPorts s)) = Some pod \<and> pullsIfNotPresent pod"
proof -
  assume "manifest s \<noteq> None"
  then obtain a pod where h: "bodyPod s = Some a" "heap s a = Some pod"
    by (auto simp: manifest_def split: option.splits)
  from mountContainers_result [OF h(2,1)] h show ?thesis
    by (auto simp: mountPorts_def)
qed

lemma manifest_mount [simp]:
  "manifest (recordCall c s) = manifest s"
  "manifest (s\<lparr>defaultContextName := n\<rparr>) = manifest s"
  "manifest (s\<lparr>currentNamespace := n\<rparr>) = manifest s"
  "manifest (s\<lparr>allNamespaces := l\<rparr>) = manifest s"
  "manifest (s\<lparr>openshiftRouteGroupSupported := b\<rparr>) = manifest s"
  "manifest (s\<lparr>openshiftConsoleURL := u\<rparr>) = manifest s"
  by (simp_all add: manifest_def recordCall_def split: option.splits)

lemma resumeOnMount_manifest:
  assumes "parsedAt p \<longrightarrow> (\<exists>pod. manifest s = Some pod)"
  shows "parsedAt (fst (resumeOnMount br ld rid eid ty p s))
           \<longrightarrow> (\<exists>pod. manifest (snd (resumeOnMount br ld rid eid ty p s)) = Some pod)"
proof (cases p)
  case (AwaitKube k)
  then show ?thesis by (simp add: Let_def manifest_def labelSync_def store_def recordCall_def)
next
  case (AwaitAPIGroup r)
  with assms have "manifest s \<noteq> None" by auto
  from mountPorts_pulls [OF this] AwaitAPIGroup assms show ?thesis
    by (cases r) (auto simp: Let_def)
next
  case (AwaitConfigMap r)
  with assms have m: "manifest s \<noteq> None" by auto
  then have "manifest (s\<lparr>openshiftConsoleURL := u\<rparr>) \<noteq> None" for u by simp
  from mountPorts_pulls [OF this] mountPorts_pulls [OF m] AwaitConfigMap show ?thesis
    by (cases r) auto
next
  case (AwaitCurrentNamespace g)
  with assms show ?thesis by (simp add: Let_def)
next
  case (AwaitNamespaces r)
  with assms show ?thesis by (cases r) (simp_all add: Let_def)
qed (use assms in \<open>simp_all add: Let_def\<close>)

lemma resumeOnMount_pulls:
  assumes "parsedAt p \<longrightarrow> (\<exists>pod. manifest s = Some pod)"
    and "endedAt p \<longrightarrow> (\<exists>pod. manifest s = Some pod \<and> pullsIfNotPresent pod)"
  shows "endedAt (fst (resumeOnMount br ld rid eid ty p s))
           \<longrightarrow> (\<exists>pod. manifest (snd (resumeOnMount br ld rid eid ty p s)) = Some pod
                  \<and> pullsIfNotPresent pod)"
proof (cases p)
  case (AwaitAPIGroup r)
  with assms have "manifest s \<noteq> None" by auto
  from mountPorts_pulls [OF this] AwaitAPIGroup show ?thesis
    by (cases r) (auto simp: Let_def)
next
  case (AwaitConfigMap r)
  with assms have m: "manifest s \<noteq> None" by auto
  then have "manifest (s\<lparr>openshiftConsoleURL := u\<rparr>) \<noteq> None" for u by simp
  from mountPorts_pulls [OF this] mountPorts_pulls [OF m] AwaitConfigMap show ?thesis
    by (cases r) auto
qed (use assms in \<open>auto simp: Let_def\<close>)

lemma handleEvent_manifest:
  assumes "\<exists>pod. manifest s = Some pod"
  shows "\<exists>pod. manifest (handleEvent br ens e s) = Some pod"
proof (cases e)
  case (InputPodName v)
  with assms show ?thesis
    by (auto simp: setPodName_def labelSync_def store_def manifest_def split: option.splits)
next
  case ClickDeploy
  with deployToKube_manifest [of br ens s] assms show ?thesis by auto
next
  case (IntervalFires h)
  with assms show ?thesis by (simp add: updatePod_frame)
qed (use assms in \<open>simp_all add: manifest_def onDestroy_def clearInterval_def
      split: option.splits\<close>)

lemma handleEvent_pulls:
  assumes "\<forall>p. pullsIfNotPresent p \<longrightarrow> pullsIfNotPresent (ens p)"
    and "\<exists>pod. manifest s = Some pod \<and> pullsIfNotPresent pod"
  shows "(\<exists>pod. manifest (handleEvent br ens e s) = Some pod \<and> pullsIfNotPresent pod)
     \<and> (\<exists>later. submittedPods (calls (handleEvent br ens e s)) = submittedPods (calls s) @ later
           \<and> list_all pullsIfNotPresent later)"
proof -
  from assms(2) obtain pod where pod: "manifest s = Some pod" "pullsIfNotPresent pod" by blast
  show ?thesis
  proof (cases e)
    case (InputPodName v)
    from pod(1) handleEvent_manifest [of s br ens "InputPodName v"]
    obtain pod' where p': "manifest (setPodName v s) = Some pod'" by auto
    from setPodName_containers [OF p'] pod have "pullsIfNotPresent pod'"
      by (auto simp: pullsIfNotPresent_def)
    with p' InputPodName show ?thesis by simp
  next
    case ClickDeploy
    let ?s' = "snd (deployToKube br ens s)"
    let ?sent = "sanitizedPod ens s (convertTimestamp pod)"
    from pod(2) have sent: "pullsIfNotPresent ?sent"
      by (simp add: pulls_sanitizedPod [OF assms(1)])
    from deployToKube_manifest [of br ens s] pod sent
    have m: "\<exists>pod'. manifest ?s' = Some pod' \<and> pullsIfNotPresent pod'" by auto
    from deployToKube_submitted [of br ens s] pod(1)
    consider "submittedPods (calls ?s') = submittedPods (calls s) @ []"
      | "submittedPods (calls ?s') = submittedPods (calls s) @ [?sent]"
      by auto
    then have "\<exists>later. submittedPods (calls ?s') = submittedPods (calls s) @ later
           \<and> list_all pullsIfNotPresent later"
    proof cases
      case 1
      then show ?thesis by (intro exI [of _ "[]"]) simp
    next
      case 2
      with sent show ?thesis by (intro exI [of _ "[?sent]"]) simp
    qed
    with m ClickDeploy show ?thesis by auto
  next
    case (IntervalFires h)
    with pod show ?thesis by (simp add: updatePod_frame)
  qed (use pod in \<open>simp_all add: manifest_def onDestroy_def clearInterval_def
        split: option.splits\<close>)
qed

lemma perform_invariant:
  assumes "parsedAt (fst ps) \<longrightarrow> (\<exists>pod. manifest (snd ps) = Some pod)"
  shows "parsedAt (fst (perform br ens ld rid eid ty a ps))
           \<longrightarrow> (\<exists>pod. manifest (snd (perform br ens ld rid eid ty a ps)) = Some pod)"
proof (cases a)
  case OnMountResumes
  with resumeOnMount_manifest [OF assms, of br ld rid eid ty] show ?thesis by simp
next
  case (Event e)
  with assms handleEvent_manifest [of "snd ps" br ens e] show ?thesis by simp
qed

lemma perform_ended:
  assumes "\<forall>p. pullsIfNotPresent p \<longrightarrow> pullsIfNotPresent (ens p)"
    and "parsedAt (fst ps) \<longrightarrow> (\<exists>pod. manifest (snd ps) = Some pod)"
    and "endedAt (fst ps) \<longrightarrow> (\<exists>pod. manifest (snd ps) = Some pod \<and> pullsIfNotPresent pod)"
  shows "endedAt (fst (perform br ens ld rid eid ty a ps))
           \<longrightarrow> (\<exists>pod. manifest (snd (perform br ens ld rid eid ty a ps)) = Some pod
                  \<and> pullsIfNotPresent pod)"
proof (cases a)
  case OnMountResumes
  with resumeOnMount_pulls [OF assms(2,3), of br ld rid eid ty] show ?thesis by simp
next
  case (Event e)
  with assms(3) handleEvent_pulls [OF assms(1), of "snd ps" br e] show ?thesis by auto
qed

lemma run_ended:
  assumes "\<forall>p. pullsIfNotPresent p \<longrightarrow> pullsIfNotPresent (ens p)"
  shows "parsedAt (fst ps) \<longrightarrow> (\<exists>pod. manifest (snd ps) = Some pod) \<Longrightarrow>
   endedAt (fst ps) \<longrightarrow> (\<exists>pod. manifest (snd ps) = Some pod \<and> pullsIfNotPresent pod) \<Longrightarrow>
   endedAt (fst (runComponent br ens ld rid eid ty acts ps))
     \<longrightarrow> (\<exists>pod. manifest (snd (runComponent br ens ld rid eid ty acts ps)) = Some pod
            \<and> pullsIfNotPresent pod)"
proof (induction acts arbitrary: ps)
  case Nil
  then show ?case by simp
next
  case (Cons a acts)
  from Cons.IH [OF perform_invariant [OF Cons.prems(1)] perform_ended [OF assms Cons.prems]]
  show ?case by simp
qed

lemma run_after_mount:
  assumes "\<forall>p. pullsIfNotPresent p \<longrightarrow> pullsIfNotPresent (ens p)"
  shows "\<exists>pod. manifest s = Some pod \<and> pullsIfNotPresent pod \<Longrightarrow>
   \<exists>later. submittedPods (calls (snd (runComponent br ens ld rid eid ty acts (MountEnded err, s))))
              = submittedPods (calls s) @ later
         \<and> list_all pullsIfNotPresent later"
proof (induction acts arbitrary: s)
  case Nil
  then show ?case by simp
next
  case (Cons a acts)
  show ?case
  proof (cases a)
    case OnMountResumes
    with Cons show ?thesis by simp
  next
    case (Event e)
    from handleEvent_pulls [OF assms Cons.prems, of br e] obtain l1 where
      l1: "\<exists>pod. manifest (handleEvent br ens e s) = Some pod \<and> pullsIfNotPresent pod"
         "submittedPods (calls (handleEvent br ens e s)) = submittedPods (calls s) @ l1"
         "list_all pullsIfNotPresent l1"
      by blast
    from Cons.IH [OF l1(1)] obtain l2 where
      "submittedPods (calls (snd (runComponent br ens ld rid eid ty acts
            (MountEnded err, handleEvent br ens e s))))
          = submittedPods (calls (handleEvent br ens e s)) @ l2"
      "list_all pullsIfNotPresent l2"
      by blast
    with l1(2,3) Event show ?thesis by (intro exI [of _ "l1 @ l2"]) simp
  qed
qed

lemma resumes_submitted:
  "submittedPods (calls (snd (runComponent br ens ld rid eid ty (replicate n OnMountResumes) ps)))
     = submittedPods (calls (snd ps))"
  by (induction n arbitrary: ps) (simp_all add: resumeOnMount_submitted)

lemma onMount_web:
  "fst (onMount quietBridge parseWeb ''web'' ''podman'' ''pod'' initialState) = None"
  by (simp add: mount_defs model_defs example_defs)

lemma listingNamespaces_state:
  "listingNamespaces
   = initialState\<lparr>heap := [0 \<mapsto> webPod], nextAddress := 1, bodyPod := Some 0,
       defaultContextName := Some ''kind-kind'', currentNamespace := Some ''default'',
       calls := [GeneratePodmanKube ''podman'' [''web''], KubernetesGetCurrentContextName,
                 KubernetesGetCurrentNamespace, KubernetesListNamespaces]\<rparr>"
  by (simp add: listingNamespaces_def listingNamespaces_eq)

lemma clickedEarly_fields:
  "map (map imagePullPolicy \<circ> podContainers)
     (submittedPods (calls (handleEvent quietBridge id ClickDeploy listingNamespaces)))
     = [[Some ''Always'', None]]"
  "map_option (\<lambda>pod. map_option (\<lambda>sp. containers sp \<noteq> None) (spec pod))
     (manifest (handleEvent quietBridge id ClickDeploy listingNamespaces)) = Some (Some True)"
  by (simp_all add: listingNamespaces_state model_defs example_defs labelSync_def syncLabel_def
      AList.update.simps)

lemma mountPorts_fst:
  "manifest s = Some pod \<Longrightarrow> spec pod = Some sp \<Longrightarrow> containers sp = Some cs \<Longrightarrow>
   fst (mountPorts s) = MountEnded None"
  by (auto simp: mountPorts_def mountContainers_def manifest_def Let_def split: option.splits)

lemma quiet_last_stretches:
  assumes "manifest s = Some pod" "spec pod = Some sp" "containers sp = Some cs"
  shows "fst (runComponent quietBridge ens ld rid eid ty (replicate 3 OnMountResumes)
                (AwaitNamespaces r, s)) = MountEnded None"
proof -
  have "fst (mountPorts s') = MountEnded None" if "manifest s' = manifest s" for s'
    using that assms by (auto intro!: mountPorts_fst [where pod = pod])
  then show ?thesis
    by (cases r) (simp_all add: numeral_eq_Suc Let_def quietBridge_def)
qed

text \<open>
  C10. Whatever the generated manifest held and however the events fell among the
  stretches of \<open>onMount\<close>, when \<open>onMount\<close> has ended every container of the form's
  manifest has \<open>imagePullPolicy\<close> \<open>IfNotPresent\<close>. From then on, whatever the user does
  and the host fires, every pod passed to \<open>kubernetesCreatePod\<close> has that policy on all
  its containers, provided \<open>ensureRestrictedSecurityContext\<close> (the parameter \<open>ens\<close>)
  keeps it. The sanitizer is not what sets it: it leaves every container's policy as
  it finds it. A pod submitted before \<open>onMount\<close> has ended is not covered.
\<close>

theorem submitted_pods_pull_if_not_present:
  assumes "\<forall>p. pullsIfNotPresent p \<longrightarrow> pullsIfNotPresent (ens p)"
    and "runComponent br ens ld rid eid ty acts created = (MountEnded err, s)"
  shows "(\<exists>pod. manifest s = Some pod \<and> pullsIfNotPresent pod)
    \<and> (\<exists>later. submittedPods (calls (snd (runComponent br ens ld rid eid ty further (MountEnded err, s))))
                 = submittedPods (calls s) @ later
            \<and> list_all pullsIfNotPresent later)
    \<and> map imagePullPolicy (podContainers (sanitize u p)) = map imagePullPolicy (podContainers p)"
proof -
  have "endedAt (fst (runComponent br ens ld rid eid ty acts created))
     \<longrightarrow> (\<exists>pod. manifest (snd (runComponent br ens ld rid eid ty acts created)) = Some pod
            \<and> pullsIfNotPresent pod)"
    by (rule run_ended [OF assms(1)]) (simp_all add: created_def)
  with assms(2) have m: "\<exists>pod. manifest s = Some pod \<and> pullsIfNotPresent pod" by simp
  from m run_after_mount [OF assms(1) m, of br ld rid eid ty further err] show ?thesis
    by (simp add: sanitize_policies)
qed


theorem submitted_pods_witness:
  "runComponent quietBridge id parseWeb ''web'' ''podman'' ''pod''
      (replicate 8 OnMountResumes) created = (MountEnded None, webForm)
   \<and> map imagePullPolicy (podContainers webPod) = [Some ''Always'', None]
   \<and> map (map imagePullPolicy \<circ> podContainers)
        (submittedPods (calls (snd (runComponent quietBridge id parseWeb ''web'' ''podman'' ''pod''
            [Event ClickDeploy] (MountEnded None, webForm)))))
       = [[Some ''IfNotPresent'', Some ''IfNotPresent'']]"
proof -
  have r: "runComponent quietBridge id parseWeb ''web'' ''podman'' ''pod''
      (replicate 8 OnMountResumes) created = (MountEnded None, webForm)"
    unfolding created_def mounted_run onMount_web by (simp add: webForm_def mounted_def)
  have ev: "map imagePullPolicy (podContainers webPod) = [Some ''Always'', None]
   \<and> map (map imagePullPolicy \<circ> podContainers)
        (submittedPods (calls (handleEvent quietBridge id ClickDeploy webForm)))
       = [[Some ''IfNotPresent'', Some ''IfNotPresent'']]"
    by (simp add: mount_defs model_defs example_defs AList.update.simps)
  have "\<forall>p. pullsIfNotPresent p \<longrightarrow> pullsIfNotPresent (id p)" by simp
  from submitted_pods_pull_if_not_present [OF this r, of "[Event ClickDeploy]"]
  obtain later where
    "submittedPods (calls (snd (runComponent quietBridge id parseWeb ''web'' ''podman'' ''pod''
        [Event ClickDeploy] (MountEnded None, webForm)))) = submittedPods (calls webForm) @ later"
    "list_all pullsIfNotPresent later"
    by blast
  with r ev show ?thesis by simp
qed

text \<open>
  A click on Deploy while \<open>onMount\<close> waits for the namespaces (line 80). The button is
  on screen, \<open>deployStarted\<close> being false; the pod is passed to \<open>kubernetesCreatePod\<close>
  with the pull policies of the generated manifest, \<open>Always\<close> and none, since lines
  100-106 have not run yet; and \<open>onMount\<close> ends without an error after the click.
\<close>

theorem pod_submitted_while_mounting:
  "map imagePullPolicy (podContainers webPod) = [Some ''Always'', None]
   \<and> \<not> deployStarted listingNamespaces
   \<and> fst (runComponent quietBridge id parseWeb ''web'' ''podman'' ''pod'' earlyClick created)
       = MountEnded None
   \<and> map (map imagePullPolicy \<circ> podContainers)
        (submittedPods (calls (snd (runComponent quietBridge id parseWeb ''web'' ''podman'' ''pod''
            earlyClick created))))
       = [[Some ''Always'', None]]
   \<and> \<not> list_all pullsIfNotPresent
        (submittedPods (calls (snd (runComponent quietBridge id parseWeb ''web'' ''podman'' ''pod''
            earlyClick created))))"
proof -
  let ?run = "runComponent quietBridge id parseWeb ''web'' ''podman'' ''pod''"
  let ?clicked = "handleEvent quietBridge id ClickDeploy listingNamespaces"
  have a: "map imagePullPolicy (podContainers webPod) = [Some ''Always'', None]"
    by (simp add: example_defs podContainers_def)
  have b: "\<not> deployStarted listingNamespaces"
    by (simp add: listingNamespaces_state initialState_def)
  have "?run (replicate 4 OnMountResumes) created
      = (AwaitNamespaces (Inl (JsError ''forbidden'')), listingNamespaces)"
    by (simp add: listingNamespaces_eq listingNamespaces_state)
  then have e: "?run earlyClick created
      = ?run (replicate 3 OnMountResumes) (AwaitNamespaces (Inl (JsError ''forbidden'')), ?clicked)"
    by (simp add: earlyClick_def)
  from clickedEarly_fields(2) obtain pod sp cs where
    "manifest ?clicked = Some pod" "spec pod = Some sp" "containers sp = Some cs"
    by auto
  then have c: "fst (?run earlyClick created) = MountEnded None"
    unfolding e by (rule quiet_last_stretches)
  have d: "map (map imagePullPolicy \<circ> podContainers)
        (submittedPods (calls (snd (?run earlyClick created)))) = [[Some ''Always'', None]]"
    unfolding e resumes_submitted by (simp only: snd_conv clickedEarly_fields(1))
  then have "map pullsIfNotPresent (submittedPods (calls (snd (?run earlyClick created))))
      = [False]"
    by (auto simp: pullsIfNotPresent_def)
  then have "\<not> list_all pullsIfNotPresent (submittedPods (calls (snd (?run earlyClick created))))"
    by (cases "submittedPods (calls (snd (?run earlyClick created)))") auto
  with a b c d show ?thesis by blast
qed

section \<open>The status poller\<close>

lemma updatePod_running:
  assumes "observesRunning br s"
  shows "timers (updatePod br s) = timers s - set_option (updatePodInterval s)"
    and "deployFinished (updatePod br s)"
    and "\<exists>c props. calls (updatePod br s)
           = calls s @ [c, TelemetryTrack ''deployToKube.running'' props]"
  using assms
  by (auto simp: updatePod_def observesRunning_def Let_def split: option.splits sum.splits)

lemma updatePod_not_running:
  assumes "\<not> observesRunning br s"
  shows "timers (updatePod br s) = timers s"
    and "deployFinished (updatePod br s) = deployFinished s"
  using assms
  by (auto simp: updatePod_def observesRunning_def Let_def split: option.splits sum.splits)

lemma pollerOwned_event:
  assumes "timers s \<subseteq> set_option (updatePodInterval s)"
  shows "timers (handleEvent br ens e s) \<subseteq> set_option (updatePodInterval (handleEvent br ens e s))"
proof (cases e)
  case ClickDeploy
  with deployToKube_timers [OF assms, of br ens] show ?thesis by simp
next
  case (IntervalFires h)
  with assms updatePod_frame(3,4) [of br s] show ?thesis by auto
next
  case Destroy
  with assms show ?thesis by (auto simp: onDestroy_def)
qed (use assms in simp_all)

lemma pollerOwned_run:
  "timers s \<subseteq> set_option (updatePodInterval s) \<Longrightarrow>
   timers (runEvents br ens es s) \<subseteq> set_option (updatePodInterval (runEvents br ens es s))"
  unfolding runEvents_def
  by (induction es arbitrary: s) (simp_all add: pollerOwned_event)

text \<open>
  C8. In every state the mounted component can reach, the only interval the host may
  still fire is the one in \<open>updatePodInterval\<close>, and an interval that was cleared runs
  nothing. When a live interval fires, \<open>updatePod\<close> reads the pod; if the pod read has
  phase \<open>Running\<close> the interval is cleared (no interval is left), \<open>deployFinished\<close>
  is set, the event \<open>deployToKube.running\<close> is sent after the read, and no later
  firing does anything; if not, the interval stays and \<open>deployFinished\<close> is unchanged.
  \<open>onDestroy\<close> and the first lines of every \<open>deployToKube\<close> leave no interval either.
  The period of 2000 ms is the host's: here a firing is an event.
\<close>

theorem poller_stops_when_running:
  fixes br :: bridge and ens :: "V1Pod \<Rightarrow> V1Pod" and es :: "event list"
    and ld :: "string \<Rightarrow> V1Pod" and rid eid ty :: string
  defines "s \<equiv> runEvents br ens es (mounted br ld rid eid ty)"
  shows "timers s \<subseteq> set_option (updatePodInterval s)
    \<and> (\<forall>h. h \<notin> timers s \<longrightarrow> handleEvent br ens (IntervalFires h) s = s)
    \<and> (\<forall>h. h \<in> timers s \<and> observesRunning br s \<longrightarrow>
          timers (handleEvent br ens (IntervalFires h) s) = {}
          \<and> deployFinished (handleEvent br ens (IntervalFires h) s)
          \<and> (\<exists>c props. calls (handleEvent br ens (IntervalFires h) s)
                = calls s @ [c, TelemetryTrack ''deployToKube.running'' props])
          \<and> (\<forall>h'. handleEvent br ens (IntervalFires h') (handleEvent br ens (IntervalFires h) s)
                = handleEvent br ens (IntervalFires h) s))
    \<and> (\<forall>h. h \<in> timers s \<and> \<not> observesRunning br s \<longrightarrow>
          timers (handleEvent br ens (IntervalFires h) s) = timers s
          \<and> deployFinished (handleEvent br ens (IntervalFires h) s) = deployFinished s)
    \<and> timers (handleEvent br ens Destroy s) = {}
    \<and> timers (resetAttempt s) = {}"
proof -
  have own: "timers s \<subseteq> set_option (updatePodInterval s)"
    unfolding s_def by (rule pollerOwned_run) (simp add: mounted_facts(3))
  have run: "timers (updatePod br s) = {}" if "observesRunning br s"
    using updatePod_running(1) [OF that] own by auto
  show ?thesis
  proof (intro conjI allI impI)
    show "timers s \<subseteq> set_option (updatePodInterval s)" by (rule own)
    show "handleEvent br ens (IntervalFires h) s = s" if "h \<notin> timers s" for h
      using that by simp
    show "timers (handleEvent br ens (IntervalFires h) s) = {}"
      if "h \<in> timers s \<and> observesRunning br s" for h
      using that run by simp
    show "deployFinished (handleEvent br ens (IntervalFires h) s)"
      if "h \<in> timers s \<and> observesRunning br s" for h
      using that updatePod_running(2) [of br s] by simp
    show "\<exists>c props. calls (handleEvent br ens (IntervalFires h) s)
                = calls s @ [c, TelemetryTrack ''deployToKube.running'' props]"
      if "h \<in> timers s \<and> observesRunning br s" for h
      using that updatePod_running(3) [of br s] by simp
    show "handleEvent br ens (IntervalFires h') (handleEvent br ens (IntervalFires h) s)
                = handleEvent br ens (IntervalFires h) s"
      if "h \<in> timers s \<and> observesRunning br s" for h h'
      using that run by simp
    show "timers (handleEvent br ens (IntervalFires h) s) = timers s"
      if "h \<in> timers s \<and> \<not> observesRunning br s" for h
      using that updatePod_not_running(1) [of br s] by simp
    show "deployFinished (handleEvent br ens (IntervalFires h) s) = deployFinished s"
      if "h \<in> timers s \<and> \<not> observesRunning br s" for h
      using that updatePod_not_running(2) [of br s] by simp
    show "timers (handleEvent br ens Destroy s) = {}"
      using own by (auto simp: onDestroy_def)
    show "timers (resetAttempt s) = {}"
      using own by auto
  qed
qed

lemma deployedWeb_fields:
  "timers deployedWeb = {0}"
  "updatePodInterval deployedWeb = Some 0"
  "deployFinished deployedWeb = False"
  "map_option podName (createdPod deployedWeb) = Some (Some ''web'')"
  "map_option podNamespace (createdPod deployedWeb) = Some (Some ''default'')"
  "map callSummary (calls deployedWeb) =
     [''other'', ''other'', ''other'', ''other'', ''other'', ''other'',
      ''pod web'', ''service web-8080'', ''service web-9090'', ''event deployToKube'']"
  "list_ex isReadCall (calls deployedWeb) = False"
  by (simp_all add: deployedWeb_def mount_defs model_defs example_defs AList.update.simps
      podNamespace_def)

lemma quiet_read:
  "kubernetesReadNamespacedPod quietBridge h nm ns
     = Inr (clusterPod (Some ns) webPod (if list_ex isReadCall h then ''Running'' else ''Pending''))"
  by (simp add: quietBridge_def)

lemma clusterPod_fields [simp]:
  "podPhase (clusterPod ns pod ph) = Some ph"
  "podName (clusterPod ns webPod ph) = Some ''web''"
  "podNamespace (clusterPod ns webPod ph) = ns"
  by (simp_all add: clusterPod_def podPhase_def podName_def podNamespace_def webPod_def)

lemma deployedWeb_pod:
  "\<exists>cp. createdPod deployedWeb = Some cp \<and> podName cp = Some ''web''
      \<and> podNamespace cp = Some ''default''"
  using deployedWeb_fields(4,5) by (cases "createdPod deployedWeb") auto

lemma polledOnce_fields:
  "timers polledOnce = {0}"
  "updatePodInterval polledOnce = Some 0"
  "deployFinished polledOnce = False"
  "createdPod polledOnce = Some (clusterPod (Some ''default'') webPod ''Pending'')"
  "map callSummary (calls polledOnce) = map callSummary (calls deployedWeb) @ [''other'']"
  "list_ex isReadCall (calls polledOnce) = True"
  using deployedWeb_pod
  by (auto simp: polledOnce_def updatePod_def deployedWeb_fields quiet_read Let_def recordCall_def)

lemma observes:
  "\<not> observesRunning quietBridge deployedWeb"
  "observesRunning quietBridge polledOnce"
  using deployedWeb_pod
  by (auto simp: observesRunning_def deployedWeb_fields polledOnce_fields quiet_read)

theorem poller_witness:
  "timers deployedWeb = {0}
   \<and> \<not> observesRunning quietBridge deployedWeb
   \<and> timers polledOnce = {0}
   \<and> \<not> deployFinished polledOnce
   \<and> observesRunning quietBridge polledOnce
   \<and> timers polledTwice = {}
   \<and> deployFinished polledTwice
   \<and> handleEvent quietBridge id (IntervalFires 0) polledTwice = polledTwice
   \<and> timers (handleEvent quietBridge id Destroy deployedWeb) = {}"
proof -
  have r1: "runEvents quietBridge id [ClickDeploy] webForm = deployedWeb"
    and r2: "runEvents quietBridge id [ClickDeploy, IntervalFires 0] webForm = polledOnce"
    by (simp_all add: runEvents_def deployedWeb_def polledOnce_def)
  note t1 = poller_stops_when_running
          [of quietBridge id "[ClickDeploy]" parseWeb "''web''" "''podman''" "''pod''",
           folded webForm_def, unfolded r1]
  note t2 = poller_stops_when_running
          [of quietBridge id "[ClickDeploy, IntervalFires 0]" parseWeb "''web''" "''podman''"
              "''pod''", folded webForm_def, unfolded r2]
  have in2: "0 \<in> timers polledOnce \<and> observesRunning quietBridge polledOnce"
    by (simp add: polledOnce_fields observes)
  from t2 in2 have "timers polledTwice = {}" "deployFinished polledTwice"
    "handleEvent quietBridge id (IntervalFires 0) polledTwice = polledTwice"
    unfolding polledTwice_def by blast+
  moreover from t1 have "timers (handleEvent quietBridge id Destroy deployedWeb) = {}"
    by blast
  ultimately show ?thesis
    by (simp add: deployedWeb_fields polledOnce_fields observes)
qed

section \<open>The options of the ingress port selector\<close>

lemma servicePort_makeService [simp]: "servicePort (makeService nm ns p) = hostPort p"
  by (simp add: servicePort_def makeService_def Let_def)





end
